theory Spec2Isabelle
  imports Main
begin

section \<open>Go library functions used by the sources\<close>

text \<open>
  Go strings are byte sequences: they are modelled as \<open>string\<close> (a list of 8-bit
  \<open>char\<close>s). A file-system path is modelled in its cleaned form, as the list of its
  components, root first (an absolute path starts with the empty component, as
  \<^verbatim>\<open>strings.Split("/proc/1", "/")\<close> does). \<^verbatim>\<open>filepath.Join(dir, name)\<close> adds one component.
\<close>

type_synonym path = "string list"

definition Join :: "path \<Rightarrow> string \<Rightarrow> path" where
  "Join dir name = dir @ [name]"

fun path_str :: "path \<Rightarrow> string" where
  "path_str [] = []"
| "path_str [c] = c"
| "path_str (c # cs) = c @ CHR ''/'' # path_str cs"

definition Base :: "path \<Rightarrow> string" where
  \<comment> \<open>\<^verbatim>\<open>filepath.Base\<close>: the last element; \<^verbatim>\<open>"."\<close> for the empty path and \<^verbatim>\<open>"/"\<close> for
      the root\<close>
  "Base p = (if p = [] then ''.'' else if last p = [] then ''/'' else last p)"

subsection \<open>\<^verbatim>\<open>strconv.Atoi\<close>, \<^verbatim>\<open>strconv.FormatInt\<close> and \<^verbatim>\<open>%d\<close>\<close>

text \<open>
  \<^verbatim>\<open>strconv.Atoi\<close> as the Go library has it, for \<^verbatim>\<open>int\<close> of 64 bits: the fast path for
  strings of 1 to 18 bytes, \<^verbatim>\<open>ParseInt(s, 10, 0)\<close> for the others. The callers drop the
  error, so only the number returned is modelled: 0 on a syntax error, the largest or
  smallest 64-bit integer on a range error. \<^verbatim>\<open>ParseUint\<close> reads the bytes from the left and
  returns at the first byte that is no digit (syntax error) or that makes the number
  exceed 64 bits (range error), whichever comes first.
\<close>

definition isDigit :: "char \<Rightarrow> bool" where
  "isDigit c = (48 \<le> (of_char c :: nat) \<and> (of_char c :: nat) \<le> 57)"

fun digitsValue :: "int \<Rightarrow> string \<Rightarrow> int" where
  \<comment> \<open>the loop \<^verbatim>\<open>n = n*10 + int(ch - '0')\<close> over decimal digits\<close>
  "digitsValue n [] = n"
| "digitsValue n (ch # s) = digitsValue (n * 10 + (of_char ch - 48)) s"

definition signBody :: "string \<Rightarrow> bool \<times> string" where
  \<comment> \<open>an optional leading sign is taken off; the flag says that it was \<^verbatim>\<open>-\<close>\<close>
  "signBody s =
     (case s of
        [] \<Rightarrow> (False, [])
      | c # r \<Rightarrow> if c = CHR ''+'' then (False, r)
                 else if c = CHR ''-'' then (True, r)
                 else (False, s))"

definition maxUint64 :: int where
  "maxUint64 = 2 ^ 64 - 1"

fun parseUintFrom :: "int \<Rightarrow> string \<Rightarrow> int option" where
  \<comment> \<open>the loop of \<^verbatim>\<open>ParseUint\<close> in base 10, from the number read so far: \<open>None\<close> is the
      syntax error; on a range error the number returned is \<open>maxUint64\<close>\<close>
  "parseUintFrom n [] = Some n"
| "parseUintFrom n (c # s) =
     (if \<not> isDigit c then None
      else if maxUint64 div 10 + 1 \<le> n then Some maxUint64
      else if maxUint64 < n * 10 + (of_char c - 48) then Some maxUint64
      else parseUintFrom (n * 10 + (of_char c - 48)) s)"

definition ParseUint :: "string \<Rightarrow> int option" where
  "ParseUint s = (if s = [] then None else parseUintFrom 0 s)"

definition ParseInt :: "string \<Rightarrow> int" where
  \<comment> \<open>the number that \<^verbatim>\<open>ParseInt(s, 10, 0)\<close> returns\<close>
  "ParseInt s =
     (if s = [] then 0
      else
        (case signBody s of (neg, body) \<Rightarrow>
           (case ParseUint body of
              None \<Rightarrow> 0
            | Some un \<Rightarrow>
                if \<not> neg \<and> 2 ^ 63 \<le> un then 2 ^ 63 - 1
                else if neg \<and> 2 ^ 63 < un then - (2 ^ 63)
                else if neg then - un else un)))"

definition Atoi :: "string \<Rightarrow> int" where
  "Atoi s =
     (if 0 < length s \<and> length s < 19
      then
        (case signBody s of (neg, body) \<Rightarrow>
           if body = [] then 0
           else if \<not> list_all isDigit body then 0
           else if hd s = CHR ''-'' then - digitsValue 0 body
           else digitsValue 0 body)
      else ParseInt s)"

fun natDigits :: "nat \<Rightarrow> string" where
  "natDigits n =
     (if n < 10 then [''0123456789'' ! n]
      else natDigits (n div 10) @ [''0123456789'' ! (n mod 10)])"

declare natDigits.simps [simp del]

definition FormatInt :: "int \<Rightarrow> string" where
  \<comment> \<open>base 10, which is also what the verb \<^verbatim>\<open>%d\<close> prints\<close>
  "FormatInt i = (if i < 0 then CHR ''-'' # natDigits (nat (- i)) else natDigits (nat i))"

subsection \<open>\<^verbatim>\<open>strings.Split\<close>, \<^verbatim>\<open>strings.Fields\<close> and \<^verbatim>\<open>strings.TrimSpace\<close>\<close>

definition NUL :: char where
  "NUL = CHR 0x00"

fun splitFrom :: "char \<Rightarrow> string \<Rightarrow> string \<Rightarrow> string list" where
  \<comment> \<open>the second argument is the field being read, last byte first\<close>
  "splitFrom sep cur [] = [rev cur]"
| "splitFrom sep cur (c # s) =
     (if c = sep then rev cur # splitFrom sep [] s else splitFrom sep (c # cur) s)"

definition Split :: "string \<Rightarrow> char \<Rightarrow> string list" where
  \<comment> \<open>\<^verbatim>\<open>strings.Split(s, sep)\<close> for a separator of one byte\<close>
  "Split s sep = splitFrom sep [] s"

text \<open>
  White space is that of \<^verbatim>\<open>unicode.IsSpace\<close>: six ASCII bytes and the runes U+0085,
  U+00A0, U+1680, U+2000 to U+200A, U+2028, U+2029, U+202F, U+205F and U+3000, which
  take two or three bytes in UTF-8. Such a rune starts with a lead byte and goes on with
  continuation bytes; a lead byte never lies inside another rune, so the runes that Go
  decodes as white space are the places where one of these encodings occurs.
  \<open>spaceMask\<close> marks their bytes; the fields are the runs of bytes that are not marked.
\<close>

definition asciiSpace :: "char \<Rightarrow> bool" where
  "asciiSpace c =
     (c = CHR 0x09 \<or> c = CHR 0x0A \<or> c = CHR 0x0B \<or> c = CHR 0x0C \<or> c = CHR 0x0D \<or> c = CHR 0x20)"

definition spaceRunes2 :: "string list" where
  \<comment> \<open>UTF-8 of U+0085 and U+00A0\<close>
  "spaceRunes2 = [[CHR 0xC2, CHR 0x85], [CHR 0xC2, CHR 0xA0]]"

definition spaceRunes3 :: "string list" where
  \<comment> \<open>UTF-8 of U+1680, U+2000 to U+200A, U+2028, U+2029, U+202F, U+205F, U+3000\<close>
  "spaceRunes3 =
     [[CHR 0xE1, CHR 0x9A, CHR 0x80],
      [CHR 0xE2, CHR 0x80, CHR 0x80], [CHR 0xE2, CHR 0x80, CHR 0x81],
      [CHR 0xE2, CHR 0x80, CHR 0x82], [CHR 0xE2, CHR 0x80, CHR 0x83],
      [CHR 0xE2, CHR 0x80, CHR 0x84], [CHR 0xE2, CHR 0x80, CHR 0x85],
      [CHR 0xE2, CHR 0x80, CHR 0x86], [CHR 0xE2, CHR 0x80, CHR 0x87],
      [CHR 0xE2, CHR 0x80, CHR 0x88], [CHR 0xE2, CHR 0x80, CHR 0x89],
      [CHR 0xE2, CHR 0x80, CHR 0x8A],
      [CHR 0xE2, CHR 0x80, CHR 0xA8], [CHR 0xE2, CHR 0x80, CHR 0xA9],
      [CHR 0xE2, CHR 0x80, CHR 0xAF],
      [CHR 0xE2, CHR 0x81, CHR 0x9F],
      [CHR 0xE3, CHR 0x80, CHR 0x80]]"

definition spaceLen :: "string \<Rightarrow> nat" where
  \<comment> \<open>the number of bytes of the white-space rune (\<^verbatim>\<open>unicode.IsSpace\<close>) that the string
      starts with, 0 when it starts with none\<close>
  "spaceLen s =
     (if s \<noteq> [] \<and> asciiSpace (hd s) then 1
      else if take 2 s \<in> set spaceRunes2 then 2
      else if take 3 s \<in> set spaceRunes3 then 3
      else 0)"

fun spaceMask :: "nat \<Rightarrow> string \<Rightarrow> bool list" where
  \<comment> \<open>marks the bytes that belong to a white-space rune; the counter is the number of
      bytes still to mark of the rune being read\<close>
  "spaceMask k [] = []"
| "spaceMask k (c # s) =
     (if 0 < k then True # spaceMask (k - 1) s
      else if 0 < spaceLen (c # s) then True # spaceMask (spaceLen (c # s) - 1) s
      else False # spaceMask 0 s)"

fun fieldsFrom :: "string \<Rightarrow> (char \<times> bool) list \<Rightarrow> string list" where
  \<comment> \<open>the first argument is the field being read, last byte first\<close>
  "fieldsFrom cur [] = (if cur = [] then [] else [rev cur])"
| "fieldsFrom cur ((c, sp) # r) =
     (if sp then (if cur = [] then fieldsFrom [] r else rev cur # fieldsFrom [] r)
      else fieldsFrom (c # cur) r)"

definition Fields :: "string \<Rightarrow> string list" where
  \<comment> \<open>\<^verbatim>\<open>strings.Fields\<close>: the maximal runs of bytes outside white-space runes\<close>
  "Fields s = fieldsFrom [] (zip s (spaceMask 0 s))"

definition TrimSpace :: "string \<Rightarrow> string" where
  \<comment> \<open>\<^verbatim>\<open>strings.TrimSpace\<close>: leading and trailing white-space runes removed\<close>
  "TrimSpace s =
     map fst (rev (dropWhile snd (rev (dropWhile snd (zip s (spaceMask 0 s))))))"

section \<open>Package browser: reclaiming the lock files of a profile directory\<close>

subsection \<open>The operating system\<close>

text \<open>
  The state holds what the calls of package \<open>os\<close> answer. \<open>entries\<close> is the table
  of directory entries with their file modes, as \<^verbatim>\<open>os.Lstat\<close> sees them; it is the part
  that \<^verbatim>\<open>os.Remove\<close> and \<^verbatim>\<open>os.MkdirAll\<close> change. The other fields give, for every
  path, the answer of a call that this code makes: the content or the error of
  \<^verbatim>\<open>os.ReadFile\<close>, whether \<^verbatim>\<open>os.Stat\<close> returns no error, and the error (if any) that
  \<^verbatim>\<open>os.MkdirAll\<close>, \<^verbatim>\<open>os.Lstat\<close> and \<^verbatim>\<open>os.Remove\<close> fail with. Nothing relates these
  answers to each other, so every theorem holds for every behaviour of the system.
  \<open>logs\<close> collects the lines written through logrus, oldest first.
  \<open>process_runs\<close> says of which process ids a process runs on the host. No call of
  the code reads it: the code learns of processes only through \<^verbatim>\<open>os.Stat\<close> on
  \<^verbatim>\<open>/proc/<pid>\<close>. It is there to state what happens to the lock of a process that
  runs.
\<close>

datatype os_error = ErrNotExist | ErrOther string

datatype FileMode =
  ModeRegular | ModeDir | ModeSymlink | ModeSocket | ModeNamedPipe | ModeDevice | ModeIrregular

datatype Level = DebugLevel | InfoLevel | WarnLevel

record os_state =
  GOOS :: string
  os_Hostname :: "string + string"
  os_ReadFile :: "path \<Rightarrow> os_error + string"
  os_Stat :: "path \<Rightarrow> bool"
  MkdirAll_err :: "path \<Rightarrow> string option"
  Lstat_err :: "path \<Rightarrow> string option"
  Remove_err :: "path \<Rightarrow> string option"
  entries :: "path \<rightharpoonup> FileMode"
  logs :: "(Level \<times> string) list"
  process_runs :: "int \<Rightarrow> bool"

definition Logf :: "Level \<Rightarrow> string \<Rightarrow> os_state \<Rightarrow> os_state" where
  "Logf lv msg s = s\<lparr>logs := logs s @ [(lv, msg)]\<rparr>"

definition Lstat :: "os_state \<Rightarrow> path \<Rightarrow> os_error + FileMode" where
  "Lstat s p =
     (case Lstat_err s p of
        Some e \<Rightarrow> Inl (ErrOther e)
      | None \<Rightarrow> (case entries s p of None \<Rightarrow> Inl ErrNotExist | Some m \<Rightarrow> Inr m))"

definition Remove :: "os_state \<Rightarrow> path \<Rightarrow> string + os_state" where
  "Remove s p =
     (case Remove_err s p of
        Some e \<Rightarrow> Inl e
      | None \<Rightarrow> Inr (s\<lparr>entries := (entries s)(p := None)\<rparr>))"

definition withDirs :: "path \<Rightarrow> (path \<rightharpoonup> FileMode) \<Rightarrow> (path \<rightharpoonup> FileMode)" where
  \<comment> \<open>the table with a directory at the path and at every path above it, where the
      table had no entry\<close>
  "withDirs p es =
     (\<lambda>q. if q \<noteq> [] \<and> take (length q) p = q \<and> es q = None then Some ModeDir else es q)"

definition MkdirAll :: "os_state \<Rightarrow> path \<Rightarrow> string + os_state" where
  \<comment> \<open>on success the path and the directories above it exist: the missing ones are made\<close>
  "MkdirAll s p =
     (case MkdirAll_err s p of
        Some e \<Rightarrow> Inl e
      | None \<Rightarrow> Inr (s\<lparr>entries := withDirs p (entries s)\<rparr>))"

subsection \<open>\<^verbatim>\<open>isProcessAlive\<close>, \<^verbatim>\<open>isStaleProfile\<close>, \<^verbatim>\<open>removeLockFile\<close>, \<^verbatim>\<open>cleanupChromeLocks\<close>\<close>

definition isProcessAlive :: "os_state \<Rightarrow> int \<Rightarrow> bool" where
  "isProcessAlive s pid =
     (if GOOS s = ''windows'' then False
      else if os_Stat s ['''', ''proc'', FormatInt pid] then True
      else False)"

definition parseSingletonCookie :: "string \<Rightarrow> string \<times> int" where
  \<comment> \<open>the variables \<^verbatim>\<open>hostname\<close> and \<^verbatim>\<open>pid\<close> of \<^verbatim>\<open>isStaleProfile\<close> after its parsing
      block; both start as the zero value\<close>
  "parseSingletonCookie content =
     (if NUL \<in> set content
      then (let parts = Split content NUL
            in (if 1 \<le> length parts then parts ! 0 else [],
                if 2 \<le> length parts then Atoi (parts ! 1) else 0))
      else (let parts = Fields (TrimSpace content)
            in (if 1 \<le> length parts then parts ! 0 else [],
                if 2 \<le> length parts then Atoi (parts ! (length parts - 1)) else 0)))"

text \<open>
  The parsing as the specification words it, to be compared with the parsing of the
  source: the fields separated by NUL bytes, the first for the host name and the second
  for the process id; without a NUL byte the fields separated by white space, the first
  for the host name and the last for the process id.
\<close>

definition spec_parseSingletonCookie :: "string \<Rightarrow> string \<times> int" where
  "spec_parseSingletonCookie content =
     (if NUL \<in> set content
      then (let parts = Split content NUL in (parts ! 0, Atoi (parts ! 1)))
      else (let parts = Fields (TrimSpace content)
            in case parts of [] \<Rightarrow> ([], 0) | f # fs \<Rightarrow> (f, Atoi (last parts))))"

definition isStaleProfile :: "path \<Rightarrow> os_state \<Rightarrow> bool \<times> os_state" where
  "isStaleProfile userDataDir s =
     (case os_ReadFile s (Join userDataDir ''SingletonCookie'') of
        Inl ErrNotExist \<Rightarrow> (True, s)
      | Inl (ErrOther e) \<Rightarrow> (True, Logf WarnLevel (''failed to read SingletonCookie: '' @ e) s)
      | Inr content \<Rightarrow>
          if content = [] then (True, s)
          else
            (case parseSingletonCookie content of (hostname, pid) \<Rightarrow>
              (case os_Hostname s of
                 Inl e \<Rightarrow> (True, Logf WarnLevel (''failed to get hostname: '' @ e) s)
               | Inr currentHostname \<Rightarrow>
                   if hostname \<noteq> [] \<and> hostname \<noteq> currentHostname
                   then (True, Logf InfoLevel
                           (''stale profile detected: hostname mismatch (cookie='' @ hostname
                              @ '', current='' @ currentHostname @ '')'') s)
                   else if 0 < pid
                   then (if \<not> isProcessAlive s pid
                         then (True, Logf InfoLevel
                                 (''stale profile detected: pid '' @ FormatInt pid
                                    @ '' is not alive'') s)
                         else (False, Logf WarnLevel
                                 (''profile may be in use: pid '' @ FormatInt pid
                                    @ '' is alive on same host'') s))
                   else (True, s))))"

definition removeLockFile :: "path \<Rightarrow> os_state \<Rightarrow> os_state" where
  "removeLockFile p s =
     (case Lstat s p of
        Inl ErrNotExist \<Rightarrow> s
      | Inl (ErrOther e) \<Rightarrow> Logf WarnLevel (''failed to stat '' @ path_str p @ '': '' @ e) s
      | Inr mode \<Rightarrow>
          if mode = ModeSymlink \<or> mode = ModeRegular \<or> mode = ModeSocket
          then (case Remove s p of
                  Inl e \<Rightarrow> Logf WarnLevel (''failed to remove '' @ path_str p @ '': '' @ e) s
                | Inr s' \<Rightarrow> Logf InfoLevel (''cleaned up stale lock: '' @ path_str p) s')
          else s)"

definition lockFiles :: "string list" where
  "lockFiles = [''SingletonLock'', ''SingletonSocket'', ''SingletonCookie'']"

definition cleanupChromeLocks :: "path \<Rightarrow> os_state \<Rightarrow> os_state" where
  "cleanupChromeLocks userDataDir s =
     (case MkdirAll s userDataDir of
        Inl e \<Rightarrow> Logf WarnLevel (''failed to create user data dir: '' @ e) s
      | Inr s1 \<Rightarrow>
          (case isStaleProfile userDataDir s1 of (stale, s2) \<Rightarrow>
             if \<not> stale
             then Logf DebugLevel ''profile appears to be in active use, skip cleanup'' s2
             else
               (let s3 = fold (\<lambda>name. removeLockFile (Join userDataDir name)) lockFiles s2;
                    defaultDir = Join userDataDir ''Default''
                in if os_Stat s3 defaultDir
                   then fold (\<lambda>name. removeLockFile (Join defaultDir name)) lockFiles s3
                   else s3)))"

text \<open>Notions used to state the properties.\<close>

definition removable :: "FileMode \<Rightarrow> bool" where
  "removable m = (m = ModeSymlink \<or> m = ModeRegular \<or> m = ModeSocket)"

definition removes :: "os_state \<Rightarrow> path \<Rightarrow> bool" where
  \<comment> \<open>an entry that \<^verbatim>\<open>removeLockFile\<close> deletes: a file, link or socket, with no error
      from \<^verbatim>\<open>os.Lstat\<close> and \<^verbatim>\<open>os.Remove\<close>\<close>
  "removes s p =
     (Lstat_err s p = None \<and> Remove_err s p = None \<and>
      (case entries s p of None \<Rightarrow> False | Some m \<Rightarrow> removable m))"

definition lockPaths :: "os_state \<Rightarrow> path \<Rightarrow> path list" where
  \<comment> \<open>the lock names in the profile root and, when \<^verbatim>\<open>os.Stat\<close> finds it, in \<^verbatim>\<open>Default\<close>\<close>
  "lockPaths s d =
     map (Join d) lockFiles @
     (if os_Stat s (Join d ''Default'') then map (Join (Join d ''Default'')) lockFiles else [])"

definition sixPaths :: "path \<Rightarrow> path list" where
  "sixPaths d = map (Join d) lockFiles @ map (Join (Join d ''Default'')) lockFiles"

section \<open>Package main: the manager\<close>

subsection \<open>The collaborators\<close>

text \<open>
  The configuration store and the process manager are not part of the sources at hand.
  A \<open>Store\<close> holds what the store answers: \<^verbatim>\<open>GetConfig().Headless\<close>,
  \<^verbatim>\<open>ResolveBinPath()\<close>, \<^verbatim>\<open>ResolveDataDir()\<close>, \<^verbatim>\<open>ListUsers()\<close> and \<^verbatim>\<open>GetUser(id)\<close>
  (\<open>None\<close> when the second result is false). \<^verbatim>\<open>proc.StartUser(ctx, params)\<close> is a
  parameter of the model: it takes the timeout of the context in seconds, the parameters
  and the state of the process manager, and returns the error (\<open>None\<close> for \<^verbatim>\<open>nil\<close>) with
  the new state. A call is taken to return, as the deadline of its context makes it.
\<close>

text \<open>A \<open>UserConfig\<close> has the fields that the sources read.\<close>

record UserConfig =
  ID :: string
  Port :: int
  AutoStart :: bool

record StartUserParams =
  User :: UserConfig
  BinPath :: string
  Headless :: bool
  DataDir :: string

record Store =
  GetConfig_Headless :: bool
  ResolveBinPath :: string
  ResolveDataDir :: string
  ListUsers :: "UserConfig list"
  GetUser :: "string \<Rightarrow> UserConfig option"

type_synonym 'p StartUser = "nat \<Rightarrow> StartUserParams \<Rightarrow> 'p \<Rightarrow> string option \<times> 'p"

subsection \<open>\<^verbatim>\<open>autoStartUsers\<close>\<close>

text \<open>
  The lines that \<^verbatim>\<open>autoStartUsers\<close> prints: the number of users found (standard
  output), a failed start with the user and the error (standard error), a start that
  succeeded (standard output).
\<close>

datatype console_line =
  FoundUsers nat | StartFailed string string | StartSucceeded string

definition startParams :: "Store \<Rightarrow> UserConfig \<Rightarrow> StartUserParams" where
  "startParams store u =
     \<lparr>User = u, BinPath = ResolveBinPath store, Headless = GetConfig_Headless store,
      DataDir = ResolveDataDir store\<rparr>"

fun startEach ::
  "'p StartUser \<Rightarrow> Store \<Rightarrow> UserConfig list \<Rightarrow> 'p \<times> console_line list
     \<Rightarrow> 'p \<times> console_line list" where
  \<comment> \<open>the loop over \<^verbatim>\<open>toStart\<close>; every call gets a context of its own, with 45 seconds\<close>
  "startEach StartUser store [] (proc, out) = (proc, out)"
| "startEach StartUser store (u # toStart) (proc, out) =
     (case StartUser 45 (startParams store u) proc of
        (Some err, proc') \<Rightarrow>
          startEach StartUser store toStart (proc', out @ [StartFailed (ID u) err])
      | (None, proc') \<Rightarrow>
          startEach StartUser store toStart (proc', out @ [StartSucceeded (ID u)]))"

definition autoStartUsers :: "'p StartUser \<Rightarrow> Store \<Rightarrow> 'p \<Rightarrow> 'p \<times> console_line list" where
  "autoStartUsers StartUser store proc =
     (let toStart = filter AutoStart (ListUsers store)
      in if length toStart = 0 then (proc, [])
         else startEach StartUser store toStart (proc, [FoundUsers (length toStart)]))"

text \<open>
  To speak about the calls that the process manager receives, \<open>recording f\<close> behaves as
  \<open>f\<close> and keeps, next to the state of \<open>f\<close>, the list of the calls made so far: the
  timeout, the parameters and the error returned.
\<close>

type_synonym call = "nat \<times> StartUserParams \<times> string option"

definition recording :: "'p StartUser \<Rightarrow> ('p \<times> call list) StartUser" where
  "recording f =
     (\<lambda>t params (proc, calls).
        case f t params proc of (err, proc') \<Rightarrow> (err, (proc', calls @ [(t, params, err)])))"

definition lineOf :: "call \<Rightarrow> console_line" where
  "lineOf c =
     (case c of (t, params, err) \<Rightarrow>
        (case err of
           Some e \<Rightarrow> StartFailed (ID (User params)) e
         | None \<Rightarrow> StartSucceeded (ID (User params))))"

subsection \<open>The log file handlers\<close>

text \<open>
  The handlers see the store, the process manager's \<^verbatim>\<open>DerivePaths(...).LogFile\<close> and
  \<^verbatim>\<open>GetStatus(id).Running\<close> (both outside the sources at hand, hence fields of the
  state), and the file system: \<open>app_files\<close> maps the path of a file to its content,
  and for each call of package \<open>os\<close> a field says with which error, if any, the call
  fails on a path. \<open>copy_reads\<close> is the content of a file as the reads of
  \<^verbatim>\<open>io.CopyN\<close> find it, which differs from \<open>app_files\<close> when the worker writes to the
  file during the transfer; \<open>Copy_err\<close> says after how many bytes, and with which
  error other than \<^verbatim>\<open>io.EOF\<close>, the copy breaks (the response writer or a read
  fails). \<open>ModTime\<close> is the modification time in the format of
  \<^verbatim>\<open>http.TimeFormat\<close>.
\<close>

record app =
  store :: Store
  DerivePaths_LogFile :: "string \<Rightarrow> string \<Rightarrow> int \<Rightarrow> path"
  GetStatus_Running :: "string \<Rightarrow> bool"
  app_files :: "path \<rightharpoonup> string"
  Stat_err :: "path \<Rightarrow> string option"
  Truncate_err :: "path \<Rightarrow> string option"
  OpenFile_err :: "path \<Rightarrow> string option"
  Open_err :: "path \<Rightarrow> string option"
  FileStat_err :: "path \<Rightarrow> string option"
  ModTime :: "path \<Rightarrow> string"
  copy_reads :: "path \<Rightarrow> string"
  Copy_err :: "(nat \<times> string) option"

text \<open>
  The texts of the responses are Chinese; they are named here by their meaning:
  \<^item> \<open>IdEmpty\<close>: the id must not be empty;
  \<^item> \<open>UserNotFound\<close>: the user does not exist;
  \<^item> \<open>NothingToClear\<close>: the log file does not exist, there is nothing to clear;
  \<^item> \<open>LogCleared\<close>: the log has been cleared;
  \<^item> \<open>LogFileBusy\<close>: the user's process is running and holds the log file;
  \<^item> \<open>StopProcessFirst\<close>: stop the user's process first, then try again;
  \<^item> \<open>ClearFailed e\<close>: clearing the log failed, with the error;
  \<^item> \<open>LogFileNotFound\<close>: the log file does not exist;
  \<^item> \<open>OpenLogFailed e\<close>: opening the log file failed, with the error;
  \<^item> \<open>StatLogFailed e\<close>: reading the state of the log file failed, with the error.
\<close>

datatype message =
  IdEmpty | UserNotFound | NothingToClear | LogCleared | LogFileBusy | StopProcessFirst
  | ClearFailed string | LogFileNotFound | OpenLogFailed string | StatLogFailed string

datatype jvalue = JBool bool | JPath path | JMsg message

record stream =
  Status :: nat
  Header :: "(string \<times> string) list"
  Written :: string
  Flushed :: bool
  Errors :: "string list"

datatype response = JSON nat "(string \<times> jvalue) list" | Streamed stream

datatype copy_error = EOF | ErrCopy string

definition Stat :: "app \<Rightarrow> path \<Rightarrow> os_error option" where
  \<comment> \<open>the error of \<^verbatim>\<open>os.Stat\<close>, \<open>None\<close> for \<^verbatim>\<open>nil\<close>\<close>
  "Stat a p =
     (case Stat_err a p of
        Some e \<Rightarrow> Some (ErrOther e)
      | None \<Rightarrow> (case app_files a p of None \<Rightarrow> Some ErrNotExist | Some c \<Rightarrow> None))"

definition Truncate :: "app \<Rightarrow> path \<Rightarrow> string + app" where
  \<comment> \<open>\<^verbatim>\<open>os.Truncate(p, 0)\<close>\<close>
  "Truncate a p =
     (case Truncate_err a p of
        Some e \<Rightarrow> Inl e
      | None \<Rightarrow>
          (case app_files a p of
             None \<Rightarrow> Inl (''truncate '' @ path_str p @ '': no such file or directory'')
           | Some c \<Rightarrow> Inr (a\<lparr>app_files := (app_files a)(p \<mapsto> [])\<rparr>)))"

definition OpenFile_TRUNC :: "app \<Rightarrow> path \<Rightarrow> string + app" where
  \<comment> \<open>\<^verbatim>\<open>os.OpenFile(p, os.O_WRONLY|os.O_TRUNC, 0644)\<close> followed by \<^verbatim>\<open>f.Close()\<close>\<close>
  "OpenFile_TRUNC a p =
     (case OpenFile_err a p of
        Some e \<Rightarrow> Inl e
      | None \<Rightarrow>
          (case app_files a p of
             None \<Rightarrow> Inl (''open '' @ path_str p @ '': no such file or directory'')
           | Some c \<Rightarrow> Inr (a\<lparr>app_files := (app_files a)(p \<mapsto> [])\<rparr>)))"

definition Open :: "app \<Rightarrow> path \<Rightarrow> os_error + string" where
  \<comment> \<open>\<^verbatim>\<open>os.Open\<close>; the open file is given by its content at that time\<close>
  "Open a p =
     (case Open_err a p of
        Some e \<Rightarrow> Inl (ErrOther e)
      | None \<Rightarrow> (case app_files a p of None \<Rightarrow> Inl ErrNotExist | Some c \<Rightarrow> Inr c))"

definition FileStat :: "app \<Rightarrow> path \<Rightarrow> string \<Rightarrow> string + int \<times> string" where
  \<comment> \<open>\<^verbatim>\<open>f.Stat()\<close>: the size and the modification time\<close>
  "FileStat a p f =
     (case FileStat_err a p of
        Some e \<Rightarrow> Inl e
      | None \<Rightarrow> Inr (int (length f), ModTime a p))"

definition CopyN :: "(nat \<times> string) option \<Rightarrow> string \<Rightarrow> int \<Rightarrow> string \<times> copy_error option" where
  \<comment> \<open>\<^verbatim>\<open>io.CopyN(dst, src, n)\<close>: the bytes written and the error. At most \<open>n\<close> bytes are
      read; a source that ends before gives \<^verbatim>\<open>io.EOF\<close>.\<close>
  "CopyN werr src n =
     (let want = take (nat n) src
      in case werr of
           Some (k, e) \<Rightarrow>
             if k < length want then (take k want, Some (ErrCopy e))
             else (want, if int (length want) < n then Some EOF else None)
         | None \<Rightarrow> (want, if int (length want) < n then Some EOF else None))"

definition DeleteDebugLogs :: "string \<Rightarrow> app \<Rightarrow> response \<times> app" where
  "DeleteDebugLogs param_id a =
     (let id = TrimSpace param_id
      in if id = [] then (JSON 400 [(''error'', JMsg IdEmpty)], a)
         else
           (case GetUser (store a) id of
              None \<Rightarrow> (JSON 404 [(''error'', JMsg UserNotFound)], a)
            | Some user \<Rightarrow>
                (let dataDir = ResolveDataDir (store a);
                     LogFile = DerivePaths_LogFile a dataDir id (Port user)
                 in if Stat a LogFile = Some ErrNotExist
                    then (JSON 200 [(''cleared'', JBool True), (''log_file'', JPath LogFile),
                                    (''message'', JMsg NothingToClear)], a)
                    else
                      \<comment> \<open>the source asks \<^verbatim>\<open>GetStatus\<close> here and does nothing with the answer\<close>
                      (case Truncate a LogFile of
                         Inl err \<Rightarrow>
                           (case OpenFile_TRUNC a LogFile of
                              Inr a' \<Rightarrow>
                                (JSON 200 [(''cleared'', JBool True), (''log_file'', JPath LogFile),
                                           (''message'', JMsg LogCleared)], a')
                            | Inl openErr \<Rightarrow>
                                if GetStatus_Running a id
                                then (JSON 409 [(''error'', JMsg LogFileBusy),
                                                (''message'', JMsg StopProcessFirst)], a)
                                else (JSON 500 [(''error'', JMsg (ClearFailed err))], a))
                       | Inr a' \<Rightarrow>
                           (JSON 200 [(''cleared'', JBool True), (''log_file'', JPath LogFile),
                                      (''message'', JMsg LogCleared)], a')))))"

definition DownloadDebugLogs :: "string \<Rightarrow> app \<Rightarrow> response" where
  "DownloadDebugLogs param_id a =
     (let id = TrimSpace param_id
      in if id = [] then JSON 400 [(''error'', JMsg IdEmpty)]
         else
           (case GetUser (store a) id of
              None \<Rightarrow> JSON 404 [(''error'', JMsg UserNotFound)]
            | Some user \<Rightarrow>
                (let dataDir = ResolveDataDir (store a);
                     LogFile = DerivePaths_LogFile a dataDir id (Port user)
                 in case Open a LogFile of
                      Inl ErrNotExist \<Rightarrow> JSON 404 [(''error'', JMsg LogFileNotFound)]
                    | Inl (ErrOther e) \<Rightarrow> JSON 500 [(''error'', JMsg (OpenLogFailed e))]
                    | Inr f \<Rightarrow>
                        (case FileStat a LogFile f of
                           Inl e \<Rightarrow> JSON 500 [(''error'', JMsg (StatLogFailed e))]
                         | Inr (statSize, mtime) \<Rightarrow>
                             (let filename = (if Base LogFile = [] \<or> Base LogFile = ''.''
                                              then id @ ''.log'' else Base LogFile);
                                  fileSize = statSize;
                                  headers =
                                    [(''Content-Type'', ''text/plain; charset=utf-8''),
                                     (''Content-Disposition'',
                                        ''attachment; filename='' @ [CHR 0x22] @ filename
                                          @ [CHR 0x22]),
                                     (''Content-Length'', FormatInt fileSize),
                                     (''Last-Modified'', mtime)]
                              in case CopyN (Copy_err a) (copy_reads a LogFile) fileSize of
                                   (written, Some (ErrCopy e)) \<Rightarrow>
                                     Streamed \<lparr>Status = 200, Header = headers, Written = written,
                                               Flushed = False, Errors = [e]\<rparr>
                                 | (written, _) \<Rightarrow>
                                     Streamed \<lparr>Status = 200, Header = headers, Written = written,
                                               Flushed = True, Errors = []\<rparr>)))))"

definition header :: "string \<Rightarrow> response \<Rightarrow> string option" where
  \<comment> \<open>the value of a header of a streamed response\<close>
  "header name r = (case r of Streamed s \<Rightarrow> map_of (Header s) name | JSON c b \<Rightarrow> None)"

definition body :: "response \<Rightarrow> string" where
  \<comment> \<open>the bytes of the body of a streamed response\<close>
  "body r = (case r of Streamed s \<Rightarrow> Written s | JSON c b \<Rightarrow> [])"

section \<open>Example systems\<close>

text \<open>
  A Linux host \<open>host-a\<close> with a profile directory whose lock files were written on
  \<open>host-a\<close> by process 4242, which is running. The directory also holds a session file
  and, under \<open>Default\<close>, a directory that bears a lock name.
\<close>

definition cookie_a :: string where
  "cookie_a = ''host-a'' @ NUL # ''4242'' @ [NUL]"

definition cookie_no_name :: string where
  "cookie_no_name = NUL # ''4242'' @ [NUL]"

definition cookie_garbled :: string where
  "cookie_garbled = NUL # ''abc''"

definition host_a :: os_state where
  "host_a =
     \<lparr>GOOS = ''linux'',
      os_Hostname = Inr ''host-a'',
      os_ReadFile = (\<lambda>p. if p = [''profile'', ''SingletonCookie'']
                          then Inr cookie_a else Inl ErrNotExist),
      os_Stat = (\<lambda>p. p = ['''', ''proc'', ''4242''] \<or> p = [''profile'', ''Default'']),
      MkdirAll_err = (\<lambda>p. None),
      Lstat_err = (\<lambda>p. None),
      Remove_err = (\<lambda>p. None),
      entries = [[''profile''] \<mapsto> ModeDir,
                 [''profile'', ''SingletonLock''] \<mapsto> ModeSymlink,
                 [''profile'', ''SingletonSocket''] \<mapsto> ModeSocket,
                 [''profile'', ''SingletonCookie''] \<mapsto> ModeRegular,
                 [''profile'', ''Cookies''] \<mapsto> ModeRegular,
                 [''profile'', ''Default''] \<mapsto> ModeDir,
                 [''profile'', ''Default'', ''SingletonLock''] \<mapsto> ModeDir],
      logs = [],
      process_runs = (\<lambda>pid. pid = 4242)\<rparr>"

text \<open>The same directory seen from another host, from a Windows host of the same name,
  from a macOS host of the same name (where process 4242 runs and there is no
  \<^verbatim>\<open>/proc\<close>), with a cookie that names no host, and with a cookie that cannot be
  parsed.\<close>

definition host_a_darwin :: os_state where
  "host_a_darwin =
     host_a\<lparr>GOOS := ''darwin'', os_Stat := (\<lambda>p. p = [''profile'', ''Default''])\<rparr>"

definition host_b :: os_state where
  "host_b = host_a\<lparr>os_Hostname := Inr ''host-b''\<rparr>"

definition host_a_windows :: os_state where
  "host_a_windows = host_a\<lparr>GOOS := ''windows''\<rparr>"

definition host_a_no_name :: os_state where
  "host_a_no_name =
     host_a\<lparr>os_ReadFile := (\<lambda>p. if p = [''profile'', ''SingletonCookie'']
                                  then Inr cookie_no_name else Inl ErrNotExist)\<rparr>"

definition host_a_garbled :: os_state where
  "host_a_garbled =
     host_a\<lparr>os_ReadFile := (\<lambda>p. if p = [''profile'', ''SingletonCookie'']
                                  then Inr cookie_garbled else Inl ErrNotExist)\<rparr>"

text \<open>A host whose name is a number, with a cookie that holds this one field; the
  process of that number is running.\<close>

definition host_numeric :: os_state where
  "host_numeric =
     host_a\<lparr>os_Hostname := Inr ''12345'',
            os_ReadFile := (\<lambda>p. if p = [''profile'', ''SingletonCookie'']
                                  then Inr ''12345'' else Inl ErrNotExist),
            os_Stat := (\<lambda>p. p = ['''', ''proc'', ''12345''])\<rparr>"

text \<open>
  A store with three users, two of them flagged for automatic start, and a process
  manager that counts the calls it receives and cannot start \<open>u1\<close>.
\<close>

definition user1 :: UserConfig where
  "user1 = \<lparr>ID = ''u1'', Port = 18061, AutoStart = True\<rparr>"

definition user2 :: UserConfig where
  "user2 = \<lparr>ID = ''u2'', Port = 18062, AutoStart = False\<rparr>"

definition user3 :: UserConfig where
  "user3 = \<lparr>ID = ''u3'', Port = 18063, AutoStart = True\<rparr>"

definition example_store :: Store where
  "example_store =
     \<lparr>GetConfig_Headless = True,
      ResolveBinPath = ''bin/xiaohongshu-mcp'',
      ResolveDataDir = ''data'',
      ListUsers = [user1, user2, user3],
      GetUser = (\<lambda>id. if id = ''u1'' then Some user1
                       else if id = ''u2'' then Some user2
                       else if id = ''u3'' then Some user3 else None)\<rparr>"

definition failing_u1 :: "nat StartUser" where
  "failing_u1 =
     (\<lambda>t params n. (if ID (User params) = ''u1'' then Some ''port in use'' else None, n + 1))"

text \<open>
  An application state: the log file of \<open>u1\<close> exists and is held by the running worker,
  so that it can neither be truncated nor opened for writing; \<open>u3\<close> has no log file.
  During a download the worker appends to the log of \<open>u1\<close>.
\<close>

definition app_busy :: app where
  "app_busy =
     \<lparr>store = example_store,
      DerivePaths_LogFile = (\<lambda>dataDir id port. [dataDir, id, ''server.log'']),
      GetStatus_Running = (\<lambda>id. id = ''u1''),
      app_files = [[''data'', ''u1'', ''server.log''] \<mapsto> ''started''],
      Stat_err = (\<lambda>p. None),
      Truncate_err = (\<lambda>p. Some ''access is denied''),
      OpenFile_err = (\<lambda>p. Some ''access is denied''),
      Open_err = (\<lambda>p. None),
      FileStat_err = (\<lambda>p. None),
      ModTime = (\<lambda>p. ''Sun, 01 Nov 2026 08:00:00 GMT''),
      copy_reads = (\<lambda>p. ''started'' @ ''and more''),
      Copy_err = None\<rparr>"

definition app_stopped :: app where
  "app_stopped = app_busy\<lparr>GetStatus_Running := (\<lambda>id. False)\<rparr>"

definition app_free :: app where
  "app_free = app_busy\<lparr>Truncate_err := (\<lambda>p. None)\<rparr>"

section \<open>Properties of the lock reclamation\<close>

subsection \<open>Library functions\<close>

lemma splitFrom_unfold:
  "splitFrom sep cur s =
     (rev cur @ takeWhile (\<lambda>c. c \<noteq> sep) s) #
     (case dropWhile (\<lambda>c. c \<noteq> sep) s of [] \<Rightarrow> [] | _ # r \<Rightarrow> splitFrom sep [] r)"
  by (induction s arbitrary: cur) simp_all

lemma Split_first: "Split s sep ! 0 = takeWhile (\<lambda>c. c \<noteq> sep) s"
  unfolding Split_def by (subst splitFrom_unfold) simp

lemma Split_second:
  assumes "sep \<in> set s"
  shows "2 \<le> length (Split s sep)"
    and "Split s sep ! 1 = takeWhile (\<lambda>c. c \<noteq> sep) (tl (dropWhile (\<lambda>c. c \<noteq> sep) s))"
proof -
  from assms obtain r where r: "dropWhile (\<lambda>c. c \<noteq> sep) s = sep # r"
    by (metis (mono_tags, lifting) dropWhile_eq_Nil_conv hd_dropWhile list.exhaust_sel)
  have "Split s sep = takeWhile (\<lambda>c. c \<noteq> sep) s # splitFrom sep [] r"
    unfolding Split_def by (subst splitFrom_unfold) (simp add: r)
  moreover obtain rest where "splitFrom sep [] r = takeWhile (\<lambda>c. c \<noteq> sep) r # rest"
    using splitFrom_unfold [of sep "[]" r] by simp
  ultimately have "Split s sep =
      takeWhile (\<lambda>c. c \<noteq> sep) s # takeWhile (\<lambda>c. c \<noteq> sep) r # rest"
    by simp
  then show "2 \<le> length (Split s sep)"
    and "Split s sep ! 1 = takeWhile (\<lambda>c. c \<noteq> sep) (tl (dropWhile (\<lambda>c. c \<noteq> sep) s))"
    by (simp_all add: r)
qed

lemma Atoi_examples:
  "Atoi ''4242'' = 4242" "Atoi ''-12'' = - 12" "Atoi ''12a'' = 0" "Atoi [] = 0"
  "Atoi ''9223372036854775808'' = 9223372036854775807"
  "Atoi ''18446744073709551616x'' = 9223372036854775807"
  "Atoi ''-18446744073709551616x'' = - 9223372036854775808"
  "Atoi ''1844674407370955161x'' = 0"
  by (simp_all add: Atoi_def ParseInt_def ParseUint_def signBody_def isDigit_def maxUint64_def)

lemma parseSingletonCookie_Nil: "parseSingletonCookie [] = ([], 0)"
  by (simp add: parseSingletonCookie_def Fields_def TrimSpace_def)

subsection \<open>What each step changes\<close>

lemma removeLockFile_entries:
  "entries (removeLockFile p s) = (if removes s p then (entries s)(p := None) else entries s)"
  by (auto simp: removeLockFile_def Lstat_def Remove_def removes_def removable_def Logf_def
      split: option.splits sum.splits os_error.splits)

lemma removeLockFile_frame:
  "Lstat_err (removeLockFile p s) = Lstat_err s"
  "Remove_err (removeLockFile p s) = Remove_err s"
  "os_Stat (removeLockFile p s) = os_Stat s"
  by (auto simp: removeLockFile_def Lstat_def Remove_def Logf_def
      split: option.splits sum.splits os_error.splits)

lemma removes_removeLockFile:
  "removes (removeLockFile p s) q = (q \<noteq> p \<and> removes s q)"
  by (auto simp: removes_def removeLockFile_entries removeLockFile_frame split: option.splits)

lemma fold_removeLockFile_entries:
  "entries (fold removeLockFile ps s) q =
     (if q \<in> set ps \<and> removes s q then None else entries s q)"
proof (induction ps arbitrary: s)
  case Nil
  then show ?case by simp
next
  case (Cons p ps)
  show ?case
    by (simp add: Cons.IH removes_removeLockFile removeLockFile_entries)
qed

lemma fold_removeLockFile_frame:
  "Lstat_err (fold removeLockFile ps s) = Lstat_err s"
  "Remove_err (fold removeLockFile ps s) = Remove_err s"
  "os_Stat (fold removeLockFile ps s) = os_Stat s"
  by (induction ps arbitrary: s) (simp_all add: removeLockFile_frame)

lemma removes_fold:
  "removes (fold removeLockFile ps s) q = (q \<notin> set ps \<and> removes s q)"
  by (induction ps arbitrary: s) (auto simp: removes_removeLockFile)

lemma fold_Join:
  "fold (\<lambda>name. removeLockFile (Join d name)) names s = fold removeLockFile (map (Join d) names) s"
  by (simp add: fold_map comp_def)

lemma isProcessAlive_cong:
  "GOOS s' = GOOS s \<Longrightarrow> os_Stat s' = os_Stat s \<Longrightarrow> isProcessAlive s' pid = isProcessAlive s pid"
  by (simp add: isProcessAlive_def)

lemma isStaleProfile_entries_irrelevant:
  "fst (isStaleProfile d (s\<lparr>entries := e\<rparr>)) = fst (isStaleProfile d s)"
  by (simp add: isStaleProfile_def isProcessAlive_def
      split: sum.splits os_error.splits prod.splits)

lemma isStaleProfile_frame:
  "entries (snd (isStaleProfile d s)) = entries s"
  "Lstat_err (snd (isStaleProfile d s)) = Lstat_err s"
  "Remove_err (snd (isStaleProfile d s)) = Remove_err s"
  "os_Stat (snd (isStaleProfile d s)) = os_Stat s"
  by (simp_all add: isStaleProfile_def Logf_def split: sum.splits os_error.splits prod.splits)

subsection \<open>The directory entries after \<^verbatim>\<open>cleanupChromeLocks\<close>\<close>

lemma withDirs_below: "length d < length q \<Longrightarrow> withDirs d es q = es q"
  by (auto simp: withDirs_def)

lemma withDirs_keeps: "es q = Some m \<Longrightarrow> withDirs d es q = Some m"
  by (simp add: withDirs_def)

lemma lockPaths_below: "q \<in> set (lockPaths s d) \<Longrightarrow> length d < length q"
  by (auto simp: lockPaths_def Join_def split: if_splits)

lemma lockPaths_six: "set (lockPaths s d) \<subseteq> set (sixPaths d)"
  by (auto simp: lockPaths_def sixPaths_def)

lemma removes_withDirs:
  "length d < length q \<Longrightarrow> removes (s\<lparr>entries := withDirs d (entries s)\<rparr>) q = removes s q"
  by (simp add: removes_def withDirs_below)

lemma cleanup_mkdir_fails:
  "MkdirAll_err s d = Some e \<Longrightarrow>
   cleanupChromeLocks d s = Logf WarnLevel (''failed to create user data dir: '' @ e) s"
  by (simp add: cleanupChromeLocks_def MkdirAll_def)

lemma cleanup_not_stale:
  assumes "MkdirAll_err s d = None" and "\<not> fst (isStaleProfile d s)"
  shows "entries (cleanupChromeLocks d s) = withDirs d (entries s)"
proof -
  let ?s1 = "s\<lparr>entries := withDirs d (entries s)\<rparr>"
  have "\<not> fst (isStaleProfile d ?s1)"
    using assms(2) by (simp add: isStaleProfile_entries_irrelevant)
  moreover have "entries (snd (isStaleProfile d ?s1)) = withDirs d (entries s)"
    by (simp add: isStaleProfile_frame)
  ultimately show ?thesis
    using assms(1) by (simp add: cleanupChromeLocks_def MkdirAll_def Logf_def case_prod_beta)
qed

lemma cleanup_stale:
  assumes "MkdirAll_err s d = None" and "fst (isStaleProfile d s)"
  shows "entries (cleanupChromeLocks d s) q =
           (if q \<in> set (lockPaths s d) \<and> removes s q then None else withDirs d (entries s) q)"
proof -
  let ?s1 = "s\<lparr>entries := withDirs d (entries s)\<rparr>"
  let ?s2 = "snd (isStaleProfile d ?s1)"
  let ?root = "map (Join d) lockFiles"
  let ?dflt = "map (Join (Join d ''Default'')) lockFiles"
  let ?s3 = "fold removeLockFile ?root ?s2"
  have st: "fst (isStaleProfile d ?s1)"
    using assms(2) by (simp add: isStaleProfile_entries_irrelevant)
  have run: "cleanupChromeLocks d s =
               (if os_Stat s (Join d ''Default'') then fold removeLockFile ?dflt ?s3 else ?s3)"
    using assms(1) st
    by (simp add: cleanupChromeLocks_def MkdirAll_def fold_Join fold_removeLockFile_frame
        isStaleProfile_frame case_prod_beta Let_def)
  have r2: "removes ?s2 p = removes ?s1 p" for p
    by (simp add: removes_def isStaleProfile_frame)
  have e3: "entries ?s3 p = (if p \<in> set ?root \<and> removes ?s1 p then None else withDirs d (entries s) p)" for p
    by (simp add: fold_removeLockFile_entries r2 isStaleProfile_frame)
  have r3: "removes ?s3 p = (p \<notin> set ?root \<and> removes ?s1 p)" for p
    by (simp add: removes_fold r2)
  have e4: "entries (fold removeLockFile ?dflt ?s3) p =
              (if (p \<in> set ?root \<or> p \<in> set ?dflt) \<and> removes ?s1 p then None
               else withDirs d (entries s) p)" for p
    unfolding fold_removeLockFile_entries [of ?dflt ?s3] r3 e3 by auto
  have below: "p \<in> set ?root \<or> p \<in> set ?dflt \<Longrightarrow> removes ?s1 p = removes s p" for p
    by (rule removes_withDirs) (auto simp: Join_def)
  show ?thesis
  proof (cases "os_Stat s (Join d ''Default'')")
    case True
    then show ?thesis
      using below [of q] by (simp add: run e4 lockPaths_def) blast
  next
    case False
    then show ?thesis
      using below [of q] by (simp add: run e3 lockPaths_def) blast
  qed
qed

lemma lockPaths_entries:
  assumes "MkdirAll_err s d = None" and "fst (isStaleProfile d s)"
    and "p \<in> set (lockPaths s d)"
  shows "entries (cleanupChromeLocks d s) p = (if removes s p then None else entries s p)"
  using assms by (simp add: cleanup_stale withDirs_below lockPaths_below)

lemma isStaleProfile_alive:
  assumes "os_ReadFile s (Join d ''SingletonCookie'') = Inr content"
    and "parseSingletonCookie content = (h, pid)"
    and "os_Hostname s = Inr cur"
    and "h = [] \<or> h = cur"
    and "0 < pid"
    and "isProcessAlive s pid"
  shows "isStaleProfile d s =
           (False, Logf WarnLevel
              (''profile may be in use: pid '' @ FormatInt pid @ '' is alive on same host'') s)"
proof -
  have "content \<noteq> []"
    using assms(2,5) by (auto simp: parseSingletonCookie_Nil)
  then show ?thesis
    using assms by (auto simp: isStaleProfile_def)
qed

lemma no_removal:
  assumes "\<not> fst (isStaleProfile d s)" and "entries s q = Some m"
  shows "entries (cleanupChromeLocks d s) q = Some m"
proof (cases "MkdirAll_err s d")
  case None
  then show ?thesis
    using assms by (simp add: cleanup_not_stale withDirs_keeps)
next
  case (Some e)
  then show ?thesis
    using assms by (simp add: cleanup_mkdir_fails Logf_def)
qed

subsection \<open>The example systems\<close>

lemmas eval_strings =
  cookie_a_def cookie_no_name_def cookie_garbled_def parseSingletonCookie_def Split_def NUL_def
  Atoi_def signBody_def isDigit_def FormatInt_def natDigits.simps

lemma cookie_a_parsed: "parseSingletonCookie cookie_a = (''host-a'', 4242)"
  by (simp add: eval_strings)

lemma cookie_no_name_parsed: "parseSingletonCookie cookie_no_name = ([], 4242)"
  by (simp add: eval_strings)

lemma cookie_garbled_parsed: "parseSingletonCookie cookie_garbled = ([], 0)"
  by (simp add: eval_strings)

lemma host_a_alive: "isProcessAlive host_a 4242"
  by (simp add: isProcessAlive_def host_a_def FormatInt_def natDigits.simps)

lemma example_lockPaths:
  assumes "os_Stat s = os_Stat host_a"
  shows "lockPaths s [''profile''] =
     [[''profile'', ''SingletonLock''], [''profile'', ''SingletonSocket''],
      [''profile'', ''SingletonCookie''],
      [''profile'', ''Default'', ''SingletonLock''],
      [''profile'', ''Default'', ''SingletonSocket''],
      [''profile'', ''Default'', ''SingletonCookie'']]"
  by (simp add: assms lockPaths_def host_a_def Join_def lockFiles_def)

lemma example_removes:
  assumes "Lstat_err s = Lstat_err host_a" "Remove_err s = Remove_err host_a"
    "entries s = entries host_a"
  shows "removes s [''profile'', ''SingletonLock'']"
    "removes s [''profile'', ''SingletonSocket'']"
    "removes s [''profile'', ''SingletonCookie'']"
    "\<not> removes s [''profile'', ''Default'', ''SingletonLock'']"
    "\<not> removes s [''profile'', ''Default'', ''SingletonSocket'']"
    "\<not> removes s [''profile'', ''Default'', ''SingletonCookie'']"
  by (simp_all add: assms removes_def removable_def host_a_def)

subsection \<open>A lock held by a live process of this host\<close>

text \<open>
  Claim C1, amended. When the \<open>SingletonCookie\<close> file of a profile directory records
  the name of the current host and a positive process id that the check of the code,
  \<open>isProcessAlive\<close>, finds alive (the system is not Windows and \<^verbatim>\<open>os.Stat\<close> finds
  \<^verbatim>\<open>/proc/<pid>\<close>), \<open>isStaleProfile\<close> answers "not stale" and \<open>cleanupChromeLocks\<close>
  removes nothing: every entry that existed before the call exists after it, with the
  same mode. When the directory could be ensured, the table of entries is exactly the
  one \<^verbatim>\<open>os.MkdirAll\<close> left, and the call logs the warning "profile may be in use: pid N
  is alive on same host", followed by the debug line that the cleanup is skipped.
\<close>

theorem live_lock_on_this_host_is_kept:
  assumes "os_ReadFile s (Join d ''SingletonCookie'') = Inr content"
    and "parseSingletonCookie content = (h, pid)"
    and "os_Hostname s = Inr h"
    and "0 < pid"
    and "isProcessAlive s pid"
  shows "\<not> fst (isStaleProfile d s) \<and>
         (\<forall>q m. entries s q = Some m \<longrightarrow> entries (cleanupChromeLocks d s) q = Some m) \<and>
         (MkdirAll_err s d = None \<longrightarrow>
            entries (cleanupChromeLocks d s) = withDirs d (entries s) \<and>
            logs (cleanupChromeLocks d s) =
              logs s @
              [(WarnLevel, ''profile may be in use: pid '' @ FormatInt pid
                             @ '' is alive on same host''),
               (DebugLevel, ''profile appears to be in active use, skip cleanup'')])"
proof -
  have verdict: "isStaleProfile d s' =
      (False, Logf WarnLevel
         (''profile may be in use: pid '' @ FormatInt pid @ '' is alive on same host'') s')"
    if "os_ReadFile s' = os_ReadFile s" "os_Hostname s' = os_Hostname s"
       "GOOS s' = GOOS s" "os_Stat s' = os_Stat s" for s'
    using that assms by (intro isStaleProfile_alive [where h = h and content = content])
      (auto simp: isProcessAlive_def split: if_splits)
  have ns: "\<not> fst (isStaleProfile d s)"
    by (simp add: verdict)
  have "logs (cleanupChromeLocks d s) =
              logs s @
              [(WarnLevel, ''profile may be in use: pid '' @ FormatInt pid
                             @ '' is alive on same host''),
               (DebugLevel, ''profile appears to be in active use, skip cleanup'')]"
    if "MkdirAll_err s d = None"
    using that by (simp add: cleanupChromeLocks_def MkdirAll_def verdict Logf_def)
  with ns show ?thesis
    by (simp add: no_removal cleanup_not_stale)
qed

theorem live_lock_on_this_host_is_kept_witness:
  "isProcessAlive host_a 4242 \<and>
   \<not> fst (isStaleProfile [''profile''] host_a) \<and>
   entries (cleanupChromeLocks [''profile''] host_a) [''profile'', ''SingletonLock'']
     = Some ModeSymlink \<and>
   entries (cleanupChromeLocks [''profile''] host_a) [''profile'', ''SingletonCookie'']
     = Some ModeRegular \<and>
   logs (cleanupChromeLocks [''profile''] host_a) =
     [(WarnLevel, ''profile may be in use: pid 4242 is alive on same host''),
      (DebugLevel, ''profile appears to be in active use, skip cleanup'')]"
proof -
  have r: "os_ReadFile host_a (Join [''profile''] ''SingletonCookie'') = Inr cookie_a"
    by (simp add: host_a_def Join_def)
  have h: "os_Hostname host_a = Inr ''host-a''"
    by (simp add: host_a_def)
  have m: "MkdirAll_err host_a [''profile''] = None"
    by (simp add: host_a_def)
  have e: "entries host_a [''profile'', ''SingletonLock''] = Some ModeSymlink"
    "entries host_a [''profile'', ''SingletonCookie''] = Some ModeRegular"
    "logs host_a = []"
    by (simp_all add: host_a_def)
  have f: "FormatInt 4242 = ''4242''"
    by (simp add: FormatInt_def natDigits.simps)
  show ?thesis
    using live_lock_on_this_host_is_kept [OF r cookie_a_parsed h _ host_a_alive]
    by (simp add: host_a_alive m e f withDirs_keeps)
qed

text \<open>
  Claim C1 as it is worded speaks of a process that is alive on this host. On a macOS
  host there is no \<^verbatim>\<open>/proc\<close>: the cookie records the name of the host and the id 4242
  of a process that runs, \<open>isProcessAlive\<close> answers false, the profile is stale and the
  three lock files of the profile root are removed.
\<close>

theorem live_lock_on_this_host_is_kept_counterexample:
  "os_Hostname host_a_darwin = Inr ''host-a'' \<and>
   os_ReadFile host_a_darwin (Join [''profile''] ''SingletonCookie'') = Inr cookie_a \<and>
   parseSingletonCookie cookie_a = (''host-a'', 4242) \<and>
   process_runs host_a_darwin 4242 \<and>
   \<not> isProcessAlive host_a_darwin 4242 \<and>
   fst (isStaleProfile [''profile''] host_a_darwin) \<and>
   entries host_a_darwin [''profile'', ''SingletonLock''] = Some ModeSymlink \<and>
   entries (cleanupChromeLocks [''profile''] host_a_darwin) [''profile'', ''SingletonLock'']
     = None \<and>
   entries (cleanupChromeLocks [''profile''] host_a_darwin) [''profile'', ''SingletonSocket'']
     = None \<and>
   entries (cleanupChromeLocks [''profile''] host_a_darwin) [''profile'', ''SingletonCookie'']
     = None"
proof -
  have h: "os_Hostname host_a_darwin = Inr ''host-a''"
    by (simp add: host_a_darwin_def host_a_def)
  have r: "os_ReadFile host_a_darwin (Join [''profile''] ''SingletonCookie'') = Inr cookie_a"
    by (simp add: host_a_darwin_def host_a_def Join_def)
  have run: "process_runs host_a_darwin 4242"
    by (simp add: host_a_darwin_def host_a_def)
  have dead: "\<not> isProcessAlive host_a_darwin 4242"
    by (simp add: isProcessAlive_def host_a_darwin_def FormatInt_def natDigits.simps)
  have c: "cookie_a \<noteq> []"
    by (simp add: cookie_a_def)
  have st: "fst (isStaleProfile [''profile''] host_a_darwin)"
    by (simp add: isStaleProfile_def r c cookie_a_parsed h dead)
  have m: "MkdirAll_err host_a_darwin [''profile''] = None"
    by (simp add: host_a_darwin_def host_a_def)
  have e: "entries host_a_darwin [''profile'', ''SingletonLock''] = Some ModeSymlink"
    by (simp add: host_a_darwin_def host_a_def)
  have lp: "[''profile'', ''SingletonLock''] \<in> set (lockPaths host_a_darwin [''profile''])"
    "[''profile'', ''SingletonSocket''] \<in> set (lockPaths host_a_darwin [''profile''])"
    "[''profile'', ''SingletonCookie''] \<in> set (lockPaths host_a_darwin [''profile''])"
    by (simp_all add: lockPaths_def Join_def lockFiles_def)
  have rm: "removes host_a_darwin [''profile'', ''SingletonLock'']"
    "removes host_a_darwin [''profile'', ''SingletonSocket'']"
    "removes host_a_darwin [''profile'', ''SingletonCookie'']"
    by (rule example_removes; simp add: host_a_darwin_def)+
  show ?thesis
    using lockPaths_entries [OF m st lp(1)] lockPaths_entries [OF m st lp(2)]
      lockPaths_entries [OF m st lp(3)]
    by (simp add: h r cookie_a_parsed run dead st e rm)
qed

subsection \<open>A lock written on another host\<close>

text \<open>
  Claim C2, amended. When the \<open>SingletonCookie\<close> file records a host name that is not
  empty and differs from the name of the current host, \<open>isStaleProfile\<close> answers
  "stale", and it does so whatever \<^verbatim>\<open>runtime.GOOS\<close> and \<^verbatim>\<open>os.Stat\<close> say, that is without
  regard to the process of the recorded id. \<open>cleanupChromeLocks\<close> then goes through
  the three lock names in the profile root and, when \<^verbatim>\<open>os.Stat\<close> finds \<open>Default\<close>,
  through the three names below it: each of them that \<open>removeLockFile\<close> deletes (a
  file, a symbolic link or a socket, with no error from \<^verbatim>\<open>os.Lstat\<close> and
  \<^verbatim>\<open>os.Remove\<close>) is gone afterwards.
\<close>

theorem foreign_host_lock_is_reclaimed:
  assumes "MkdirAll_err s d = None"
    and "os_ReadFile s (Join d ''SingletonCookie'') = Inr content"
    and "parseSingletonCookie content = (h, pid)"
    and "os_Hostname s = Inr cur"
    and "h \<noteq> []" and "h \<noteq> cur"
  shows "fst (isStaleProfile d s) \<and>
         (\<forall>g st. fst (isStaleProfile d (s\<lparr>GOOS := g, os_Stat := st\<rparr>))) \<and>
         (\<forall>p \<in> set (lockPaths s d).
            entries (cleanupChromeLocks d s) p = (if removes s p then None else entries s p))"
proof -
  have "content \<noteq> []"
    using assms(3,5) by (auto simp: parseSingletonCookie_Nil)
  then have "fst (isStaleProfile d (s\<lparr>GOOS := g, os_Stat := st\<rparr>))" for g st
    using assms by (simp add: isStaleProfile_def)
  moreover from \<open>content \<noteq> []\<close> have "fst (isStaleProfile d s)"
    using assms by (simp add: isStaleProfile_def)
  ultimately show ?thesis
    using assms(1) by (simp add: lockPaths_entries)
qed

theorem foreign_host_lock_is_reclaimed_witness:
  "isProcessAlive host_b 4242 \<and>
   fst (isStaleProfile [''profile''] host_b) \<and>
   entries (cleanupChromeLocks [''profile''] host_b) [''profile'', ''SingletonLock''] = None \<and>
   entries (cleanupChromeLocks [''profile''] host_b) [''profile'', ''SingletonSocket''] = None \<and>
   entries (cleanupChromeLocks [''profile''] host_b) [''profile'', ''SingletonCookie''] = None \<and>
   entries (cleanupChromeLocks [''profile''] host_b) [''profile'', ''Default'', ''SingletonLock'']
     = Some ModeDir \<and>
   entries (cleanupChromeLocks [''profile''] host_b) [''profile'', ''Default'', ''SingletonCookie'']
     = None"
proof -
  have m: "MkdirAll_err host_b [''profile''] = None"
    by (simp add: host_b_def host_a_def)
  have r: "os_ReadFile host_b (Join [''profile''] ''SingletonCookie'') = Inr cookie_a"
    by (simp add: host_b_def host_a_def Join_def)
  have h: "os_Hostname host_b = Inr ''host-b''"
    by (simp add: host_b_def)
  have a: "isProcessAlive host_b 4242"
    by (simp add: isProcessAlive_def host_b_def host_a_def FormatInt_def natDigits.simps)
  have e: "entries host_b [''profile'', ''Default'', ''SingletonLock''] = Some ModeDir"
    "entries host_b [''profile'', ''Default'', ''SingletonCookie''] = None"
    by (simp_all add: host_b_def host_a_def)
  have lp: "lockPaths host_b [''profile''] =
     [[''profile'', ''SingletonLock''], [''profile'', ''SingletonSocket''],
      [''profile'', ''SingletonCookie''],
      [''profile'', ''Default'', ''SingletonLock''],
      [''profile'', ''Default'', ''SingletonSocket''],
      [''profile'', ''Default'', ''SingletonCookie'']]"
    by (rule example_lockPaths) (simp add: host_b_def)
  have rm: "removes host_b [''profile'', ''SingletonLock'']"
    "removes host_b [''profile'', ''SingletonSocket'']"
    "removes host_b [''profile'', ''SingletonCookie'']"
    "\<not> removes host_b [''profile'', ''Default'', ''SingletonLock'']"
    "\<not> removes host_b [''profile'', ''Default'', ''SingletonSocket'']"
    "\<not> removes host_b [''profile'', ''Default'', ''SingletonCookie'']"
    by (rule example_removes; simp add: host_b_def)+
  show ?thesis
    using foreign_host_lock_is_reclaimed [OF m r cookie_a_parsed h]
    by (simp add: a e lp rm)
qed

text \<open>
  Claim C2 as it is worded covers every recorded host name that differs from the
  current one, the empty name too. The cookie of a NUL byte, \<open>4242\<close> and a NUL byte
  records the empty name, which differs from \<open>host-a\<close>; the rule of the different host
  is passed over, process 4242 is found alive, the profile is not stale and the three
  lock files stay.
\<close>

theorem foreign_host_lock_is_reclaimed_counterexample:
  "os_Hostname host_a_no_name = Inr ''host-a'' \<and>
   os_ReadFile host_a_no_name (Join [''profile''] ''SingletonCookie'') = Inr cookie_no_name \<and>
   parseSingletonCookie cookie_no_name = ([], 4242) \<and>
   [] \<noteq> ''host-a'' \<and>
   \<not> fst (isStaleProfile [''profile''] host_a_no_name) \<and>
   entries (cleanupChromeLocks [''profile''] host_a_no_name) [''profile'', ''SingletonLock'']
     = Some ModeSymlink \<and>
   entries (cleanupChromeLocks [''profile''] host_a_no_name) [''profile'', ''SingletonSocket'']
     = Some ModeSocket \<and>
   entries (cleanupChromeLocks [''profile''] host_a_no_name) [''profile'', ''SingletonCookie'']
     = Some ModeRegular"
proof -
  have h: "os_Hostname host_a_no_name = Inr ''host-a''"
    by (simp add: host_a_no_name_def host_a_def)
  have r: "os_ReadFile host_a_no_name (Join [''profile''] ''SingletonCookie'')
             = Inr cookie_no_name"
    by (simp add: host_a_no_name_def Join_def)
  have a: "isProcessAlive host_a_no_name 4242"
    by (simp add: isProcessAlive_def host_a_no_name_def host_a_def FormatInt_def
        natDigits.simps)
  have v: "isStaleProfile [''profile''] host_a_no_name =
      (False, Logf WarnLevel
         (''profile may be in use: pid '' @ FormatInt 4242 @ '' is alive on same host'')
         host_a_no_name)"
    by (rule isStaleProfile_alive [OF r cookie_no_name_parsed h _ _ a]) simp_all
  have ns: "\<not> fst (isStaleProfile [''profile''] host_a_no_name)"
    by (simp add: v)
  have e: "entries host_a_no_name [''profile'', ''SingletonLock''] = Some ModeSymlink"
    "entries host_a_no_name [''profile'', ''SingletonSocket''] = Some ModeSocket"
    "entries host_a_no_name [''profile'', ''SingletonCookie''] = Some ModeRegular"
    by (simp_all add: host_a_no_name_def host_a_def)
  show ?thesis
    using no_removal [OF ns e(1)] no_removal [OF ns e(2)] no_removal [OF ns e(3)]
    by (simp add: h r cookie_no_name_parsed ns)
qed

subsection \<open>A cookie that is absent, empty, unreadable or says nothing\<close>

text \<open>
  Claim C3. When the \<open>SingletonCookie\<close> file is absent, cannot be read, is empty, or has
  a content from which no positive process id comes out (so in particular when neither a
  host name nor a process id comes out of it), \<open>isStaleProfile\<close> answers "stale" and
  \<open>cleanupChromeLocks\<close> goes through the lock names as for Claim C2. The function has
  no result besides the state, as in the source: a failure shows only as a line of the
  log.
\<close>

theorem unusable_cookie_is_stale:
  assumes "MkdirAll_err s d = None"
    and "os_ReadFile s (Join d ''SingletonCookie'') = Inl ErrNotExist
         \<or> (\<exists>e. os_ReadFile s (Join d ''SingletonCookie'') = Inl (ErrOther e))
         \<or> os_ReadFile s (Join d ''SingletonCookie'') = Inr []
         \<or> (\<exists>content. os_ReadFile s (Join d ''SingletonCookie'') = Inr content
                \<and> snd (parseSingletonCookie content) \<le> 0)"
  shows "fst (isStaleProfile d s) \<and>
         (\<forall>p \<in> set (lockPaths s d).
            entries (cleanupChromeLocks d s) p = (if removes s p then None else entries s p))"
proof -
  have "fst (isStaleProfile d s)"
    using assms(2) by (auto simp: isStaleProfile_def split: sum.splits prod.splits)
  then show ?thesis
    using assms(1) by (simp add: lockPaths_entries)
qed

theorem unusable_cookie_is_stale_witness:
  "parseSingletonCookie cookie_garbled = ([], 0) \<and>
   fst (isStaleProfile [''profile''] host_a_garbled) \<and>
   entries (cleanupChromeLocks [''profile''] host_a_garbled) [''profile'', ''SingletonLock'']
     = None \<and>
   entries (cleanupChromeLocks [''profile''] host_a_garbled) [''profile'', ''SingletonSocket'']
     = None \<and>
   entries (cleanupChromeLocks [''profile''] host_a_garbled) [''profile'', ''SingletonCookie'']
     = None"
proof -
  have m: "MkdirAll_err host_a_garbled [''profile''] = None"
    by (simp add: host_a_garbled_def host_a_def)
  have r: "os_ReadFile host_a_garbled (Join [''profile''] ''SingletonCookie'')
             = Inr cookie_garbled"
    by (simp add: host_a_garbled_def Join_def)
  have c: "os_ReadFile host_a_garbled (Join [''profile''] ''SingletonCookie'') = Inl ErrNotExist
         \<or> (\<exists>e. os_ReadFile host_a_garbled (Join [''profile''] ''SingletonCookie'')
                  = Inl (ErrOther e))
         \<or> os_ReadFile host_a_garbled (Join [''profile''] ''SingletonCookie'') = Inr []
         \<or> (\<exists>content. os_ReadFile host_a_garbled (Join [''profile''] ''SingletonCookie'')
                  = Inr content
                \<and> snd (parseSingletonCookie content) \<le> 0)"
    by (simp add: r cookie_garbled_parsed)
  have lp: "lockPaths host_a_garbled [''profile''] =
     [[''profile'', ''SingletonLock''], [''profile'', ''SingletonSocket''],
      [''profile'', ''SingletonCookie''],
      [''profile'', ''Default'', ''SingletonLock''],
      [''profile'', ''Default'', ''SingletonSocket''],
      [''profile'', ''Default'', ''SingletonCookie'']]"
    by (rule example_lockPaths) (simp add: host_a_garbled_def)
  have rm: "removes host_a_garbled [''profile'', ''SingletonLock'']"
    "removes host_a_garbled [''profile'', ''SingletonSocket'']"
    "removes host_a_garbled [''profile'', ''SingletonCookie'']"
    by (rule example_removes; simp add: host_a_garbled_def)+
  show ?thesis
    using unusable_cookie_is_stale [OF m c]
    by (simp add: cookie_garbled_parsed lp rm)
qed

subsection \<open>What \<^verbatim>\<open>isProcessAlive\<close> answers\<close>

text \<open>
  Claim C8. \<open>isProcessAlive\<close> answers true exactly when the system is not Windows and
  \<^verbatim>\<open>os.Stat\<close> finds \<^verbatim>\<open>/proc/<pid>\<close>. So on Windows, and wherever \<^verbatim>\<open>/proc/<pid>\<close> is not
  found, a cookie that records the current host and a positive process id makes the
  profile stale whether or not that process runs, and \<open>cleanupChromeLocks\<close> goes
  through the lock names as for Claim C2.
\<close>

theorem liveness_is_proc_entry:
  "(isProcessAlive s pid \<longleftrightarrow>
      GOOS s \<noteq> ''windows'' \<and> os_Stat s ['''', ''proc'', FormatInt pid]) \<and>
   ((GOOS s = ''windows'' \<or> \<not> os_Stat s ['''', ''proc'', FormatInt pid]) \<and>
    MkdirAll_err s d = None \<and>
    os_ReadFile s (Join d ''SingletonCookie'') = Inr content \<and>
    parseSingletonCookie content = (h, pid) \<and> os_Hostname s = Inr h \<and> 0 < pid \<longrightarrow>
      fst (isStaleProfile d s) \<and>
      (\<forall>p \<in> set (lockPaths s d).
         entries (cleanupChromeLocks d s) p = (if removes s p then None else entries s p)))"
proof -
  have alive: "isProcessAlive s pid \<longleftrightarrow>
      GOOS s \<noteq> ''windows'' \<and> os_Stat s ['''', ''proc'', FormatInt pid]"
    by (simp add: isProcessAlive_def)
  have "fst (isStaleProfile d s)"
    if "GOOS s = ''windows'' \<or> \<not> os_Stat s ['''', ''proc'', FormatInt pid]"
      and "os_ReadFile s (Join d ''SingletonCookie'') = Inr content"
      and "parseSingletonCookie content = (h, pid)" and "os_Hostname s = Inr h"
    using that by (auto simp: isStaleProfile_def isProcessAlive_def)
  then show ?thesis
    using alive by (simp add: lockPaths_entries)
qed

theorem liveness_is_proc_entry_witness:
  "\<not> isProcessAlive host_a_windows 4242 \<and>
   os_Stat host_a_windows ['''', ''proc'', ''4242''] \<and>
   fst (isStaleProfile [''profile''] host_a_windows) \<and>
   entries (cleanupChromeLocks [''profile''] host_a_windows) [''profile'', ''SingletonLock'']
     = None \<and>
   entries (cleanupChromeLocks [''profile''] host_a_windows) [''profile'', ''SingletonSocket'']
     = None \<and>
   entries (cleanupChromeLocks [''profile''] host_a_windows) [''profile'', ''SingletonCookie'']
     = None"
proof -
  have g: "GOOS host_a_windows = ''windows''"
    by (simp add: host_a_windows_def)
  have st: "os_Stat host_a_windows ['''', ''proc'', ''4242'']"
    by (simp add: host_a_windows_def host_a_def)
  have m: "MkdirAll_err host_a_windows [''profile''] = None"
    by (simp add: host_a_windows_def host_a_def)
  have r: "os_ReadFile host_a_windows (Join [''profile''] ''SingletonCookie'') = Inr cookie_a"
    by (simp add: host_a_windows_def host_a_def Join_def)
  have h: "os_Hostname host_a_windows = Inr ''host-a''"
    by (simp add: host_a_windows_def host_a_def)
  have lp: "lockPaths host_a_windows [''profile''] =
     [[''profile'', ''SingletonLock''], [''profile'', ''SingletonSocket''],
      [''profile'', ''SingletonCookie''],
      [''profile'', ''Default'', ''SingletonLock''],
      [''profile'', ''Default'', ''SingletonSocket''],
      [''profile'', ''Default'', ''SingletonCookie'']]"
    by (rule example_lockPaths) (simp add: host_a_windows_def)
  have rm: "removes host_a_windows [''profile'', ''SingletonLock'']"
    "removes host_a_windows [''profile'', ''SingletonSocket'']"
    "removes host_a_windows [''profile'', ''SingletonCookie'']"
    by (rule example_removes; simp add: host_a_windows_def)+
  show ?thesis
    using liveness_is_proc_entry [of host_a_windows 4242 "[''profile'']" cookie_a "''host-a''"]
    by (simp add: g st m r h cookie_a_parsed lp rm)
qed

subsection \<open>The entries that \<^verbatim>\<open>cleanupChromeLocks\<close> leaves alone\<close>

text \<open>
  Claim C9. Whatever the system answers, an entry differs after \<open>cleanupChromeLocks\<close>
  only in two ways: it is one of the six paths \<open>SingletonLock\<close>, \<open>SingletonSocket\<close>,
  \<open>SingletonCookie\<close> in the profile root or below \<open>Default\<close>, was a regular file, a
  symbolic link or a socket, and is gone; or it is the profile directory or a
  directory above it, did not exist, and was made by \<^verbatim>\<open>os.MkdirAll\<close>. In particular a
  directory stays, also under a lock name, and every path below the profile directory
  that is not one of the six is unchanged.
\<close>

theorem only_lock_files_are_removed:
  "(entries (cleanupChromeLocks d s) q \<noteq> entries s q \<longrightarrow>
      (q \<in> set (sixPaths d) \<and>
       (\<exists>m. entries s q = Some m \<and> (m = ModeRegular \<or> m = ModeSymlink \<or> m = ModeSocket)) \<and>
       entries (cleanupChromeLocks d s) q = None)
      \<or> (q \<noteq> [] \<and> take (length q) d = q \<and> entries s q = None \<and>
          entries (cleanupChromeLocks d s) q = Some ModeDir)) \<and>
   (entries s q = Some ModeDir \<longrightarrow> entries (cleanupChromeLocks d s) q = Some ModeDir) \<and>
   (length d < length q \<and> q \<notin> set (sixPaths d) \<longrightarrow>
      entries (cleanupChromeLocks d s) q = entries s q)"
proof (cases "MkdirAll_err s d")
  case (Some e)
  then show ?thesis
    by (simp add: cleanup_mkdir_fails Logf_def)
next
  case None
  show ?thesis
  proof (cases "fst (isStaleProfile d s)")
    case False
    with None show ?thesis
      by (auto simp: cleanup_not_stale withDirs_def)
  next
    case True
    have six: "q \<in> set (lockPaths s d) \<Longrightarrow> q \<in> set (sixPaths d)"
      using lockPaths_six by blast
    from None True show ?thesis
      using six lockPaths_below [of q s d]
      by (auto simp: cleanup_stale withDirs_def removes_def removable_def split: option.splits)
  qed
qed

theorem only_lock_files_are_removed_witness:
  "entries (cleanupChromeLocks [''profile''] host_b) [''profile'', ''SingletonLock'']
     \<noteq> entries host_b [''profile'', ''SingletonLock''] \<and>
   [''profile'', ''SingletonLock''] \<in> set (sixPaths [''profile'']) \<and>
   entries host_b [''profile'', ''SingletonLock''] = Some ModeSymlink \<and>
   entries (cleanupChromeLocks [''profile''] host_b) [''profile'', ''SingletonLock''] = None \<and>
   entries host_b [''profile'', ''Default'', ''SingletonLock''] = Some ModeDir \<and>
   entries (cleanupChromeLocks [''profile''] host_b) [''profile'', ''Default'', ''SingletonLock'']
     = Some ModeDir \<and>
   [''profile'', ''Cookies''] \<notin> set (sixPaths [''profile'']) \<and>
   entries (cleanupChromeLocks [''profile''] host_b) [''profile'', ''Cookies'']
     = Some ModeRegular"
proof -
  have gone: "entries (cleanupChromeLocks [''profile''] host_b) [''profile'', ''SingletonLock'']
     = None"
    by (simp add: cleanupChromeLocks_def host_b_def host_a_def MkdirAll_def isStaleProfile_def
        eval_strings Join_def lockFiles_def removeLockFile_def Lstat_def Remove_def Logf_def
        withDirs_def Let_def)
  have e: "entries host_b [''profile'', ''SingletonLock''] = Some ModeSymlink"
    "entries host_b [''profile'', ''Default'', ''SingletonLock''] = Some ModeDir"
    "entries host_b [''profile'', ''Cookies''] = Some ModeRegular"
    by (simp_all add: host_b_def host_a_def)
  have six: "[''profile'', ''SingletonLock''] \<in> set (sixPaths [''profile''])"
    "[''profile'', ''Cookies''] \<notin> set (sixPaths [''profile''])"
    by (simp_all add: sixPaths_def Join_def lockFiles_def)
  show ?thesis
    using only_lock_files_are_removed [of "[''profile'']" host_b "[''profile'', ''SingletonLock'']"]
      only_lock_files_are_removed [of "[''profile'']" host_b
        "[''profile'', ''Default'', ''SingletonLock'']"]
      only_lock_files_are_removed [of "[''profile'']" host_b "[''profile'', ''Cookies'']"]
    by (simp add: gone e six)
qed

subsection \<open>A cookie without a host name\<close>

text \<open>
  Claim C10. When the host name read from the cookie is empty and the name of the
  current host is known, the comparison of host names is passed over, whatever the
  current name is, and the process id alone decides: the profile is not stale exactly
  when the id is positive and \<open>isProcessAlive\<close> finds the process, and then nothing is
  removed; with an id that is not positive or a process that is not found the profile
  is stale.
\<close>

theorem empty_hostname_leaves_pid_to_decide:
  assumes "os_ReadFile s (Join d ''SingletonCookie'') = Inr content"
    and "parseSingletonCookie content = ([], pid)"
    and "os_Hostname s = Inr cur"
  shows "fst (isStaleProfile d s) = (\<not> (0 < pid \<and> isProcessAlive s pid)) \<and>
         (0 < pid \<and> isProcessAlive s pid \<longrightarrow>
            (\<forall>q m. entries s q = Some m \<longrightarrow> entries (cleanupChromeLocks d s) q = Some m))"
proof -
  have "fst (isStaleProfile d s) = (\<not> (0 < pid \<and> isProcessAlive s pid))"
    using assms by (auto simp: isStaleProfile_def parseSingletonCookie_Nil)
  then show ?thesis
    by (simp add: no_removal)
qed

theorem empty_hostname_leaves_pid_to_decide_witness:
  "parseSingletonCookie cookie_no_name = ([], 4242) \<and>
   os_Hostname host_a_no_name = Inr ''host-a'' \<and>
   isProcessAlive host_a_no_name 4242 \<and>
   \<not> fst (isStaleProfile [''profile''] host_a_no_name) \<and>
   entries (cleanupChromeLocks [''profile''] host_a_no_name) [''profile'', ''SingletonLock'']
     = Some ModeSymlink"
proof -
  have r: "os_ReadFile host_a_no_name (Join [''profile''] ''SingletonCookie'')
             = Inr cookie_no_name"
    by (simp add: host_a_no_name_def Join_def)
  have h: "os_Hostname host_a_no_name = Inr ''host-a''"
    by (simp add: host_a_no_name_def host_a_def)
  have a: "isProcessAlive host_a_no_name 4242"
    by (simp add: isProcessAlive_def host_a_no_name_def host_a_def FormatInt_def
        natDigits.simps)
  have e: "entries host_a_no_name [''profile'', ''SingletonLock''] = Some ModeSymlink"
    by (simp add: host_a_no_name_def host_a_def)
  show ?thesis
    using empty_hostname_leaves_pid_to_decide [OF r cookie_no_name_parsed h]
    by (simp add: cookie_no_name_parsed h a e)
qed

subsection \<open>How the cookie is parsed\<close>

lemmas eval_fields = Fields_def TrimSpace_def spaceLen_def asciiSpace_def spaceRunes2_def
  spaceRunes3_def

lemma nth_last: "xs \<noteq> [] \<Longrightarrow> xs ! (length xs - 1) = last xs"
  by (simp add: last_conv_nth)

text \<open>
  Claim C4, amended. With a NUL byte in the content there are at least two fields
  separated by NUL; the host name is the first, that is the bytes before the first NUL,
  and the process id is read from the second, the bytes between the first NUL and the
  next one (or the end). Only without a NUL byte are the fields separated by white space
  used: the host name is the first field, if there is one, and the process id is read
  from the last field when there are at least two fields; with fewer than two fields
  the process id stays 0.
\<close>

theorem cookie_parsing:
  "(NUL \<in> set content \<longrightarrow>
      2 \<le> length (Split content NUL) \<and>
      parseSingletonCookie content = (Split content NUL ! 0, Atoi (Split content NUL ! 1)) \<and>
      Split content NUL ! 0 = takeWhile (\<lambda>c. c \<noteq> NUL) content \<and>
      Split content NUL ! 1 =
        takeWhile (\<lambda>c. c \<noteq> NUL) (tl (dropWhile (\<lambda>c. c \<noteq> NUL) content))) \<and>
   (NUL \<notin> set content \<longrightarrow>
      parseSingletonCookie content =
        (case Fields (TrimSpace content) of
           [] \<Rightarrow> ([], 0)
         | [f] \<Rightarrow> (f, 0)
         | f # g # fs \<Rightarrow> (f, Atoi (last (g # fs)))))"
proof -
  have "parseSingletonCookie content =
        (case Fields (TrimSpace content) of
           [] \<Rightarrow> ([], 0)
         | [f] \<Rightarrow> (f, 0)
         | f # g # fs \<Rightarrow> (f, Atoi (last (g # fs))))"
    if "NUL \<notin> set content"
    using that nth_last [of "tl (tl (Fields (TrimSpace content)))"]
    by (auto simp: parseSingletonCookie_def Let_def last_conv_nth split: list.splits)
  moreover have "parseSingletonCookie content =
      (Split content NUL ! 0, Atoi (Split content NUL ! 1))"
    if "NUL \<in> set content"
    using that Split_second(1) [OF that] by (simp add: parseSingletonCookie_def Let_def)
  ultimately show ?thesis
    using Split_second by (auto simp: Split_first)
qed

theorem cookie_parsing_witness:
  "NUL \<in> set cookie_a \<and> parseSingletonCookie cookie_a = (''host-a'', 4242) \<and>
   Split cookie_a NUL ! 0 = ''host-a'' \<and> Split cookie_a NUL ! 1 = ''4242'' \<and>
   NUL \<notin> set ''host-a 4242'' \<and>
   Fields (TrimSpace ''host-a 4242'') = [''host-a'', ''4242''] \<and>
   parseSingletonCookie ''host-a 4242'' = (''host-a'', 4242)"
proof -
  have n: "NUL \<in> set cookie_a" "NUL \<notin> set ''host-a 4242''"
    by (simp_all add: cookie_a_def NUL_def)
  have f: "Fields (TrimSpace ''host-a 4242'') = [''host-a'', ''4242'']"
    by (simp add: eval_fields)
  have a: "Atoi ''4242'' = 4242"
    by (simp add: Atoi_def signBody_def isDigit_def)
  have t: "takeWhile (\<lambda>c. c \<noteq> NUL) cookie_a = ''host-a''"
    "takeWhile (\<lambda>c. c \<noteq> NUL) (tl (dropWhile (\<lambda>c. c \<noteq> NUL) cookie_a)) = ''4242''"
    by (simp_all add: cookie_a_def NUL_def)
  have nul: "parseSingletonCookie cookie_a = (''host-a'', 4242) \<and>
      Split cookie_a NUL ! 0 = ''host-a'' \<and> Split cookie_a NUL ! 1 = ''4242''"
    using cookie_parsing [of cookie_a] n(1) by (simp add: a t)
  have spaces: "parseSingletonCookie ''host-a 4242'' = (''host-a'', 4242)"
    using cookie_parsing [of "''host-a 4242''"] by (simp add: f a NUL_def)
  show ?thesis
    using nul spaces n f by simp
qed

text \<open>
  Claim C4 as it is worded takes the last field separated by white space for the
  process id. For the content \<open>12345\<close>, which has one field, that gives the id 12345;
  the source leaves the id 0. On a host of the name \<open>12345\<close> where process 12345 runs,
  the profile is then stale.
\<close>

theorem cookie_parsing_counterexample:
  "NUL \<notin> set ''12345'' \<and>
   Fields (TrimSpace ''12345'') = [''12345''] \<and>
   parseSingletonCookie ''12345'' = (''12345'', 0) \<and>
   spec_parseSingletonCookie ''12345'' = (''12345'', 12345) \<and>
   isProcessAlive host_numeric 12345 \<and>
   fst (isStaleProfile [''profile''] host_numeric)"
proof -
  have f: "Fields (TrimSpace ''12345'') = [''12345'']"
    by (simp add: eval_fields)
  have n: "NUL \<notin> set ''12345''"
    by (simp add: NUL_def)
  have a: "Atoi ''12345'' = 12345"
    by (simp add: Atoi_def signBody_def isDigit_def)
  have p: "parseSingletonCookie ''12345'' = (''12345'', 0)"
    by (simp add: parseSingletonCookie_def f NUL_def)
  have q: "spec_parseSingletonCookie ''12345'' = (''12345'', 12345)"
    by (simp add: spec_parseSingletonCookie_def f a NUL_def)
  have l: "isProcessAlive host_numeric 12345"
    by (simp add: isProcessAlive_def host_numeric_def host_a_def FormatInt_def natDigits.simps)
  have s: "fst (isStaleProfile [''profile''] host_numeric)"
    by (simp add: isStaleProfile_def host_numeric_def Join_def p)
  show ?thesis
    using n by (simp add: f p q l s)
qed

section \<open>Properties of the manager\<close>

subsection \<open>Automatic start\<close>

lemma User_startParams: "User (startParams st u) = u"
  by (simp add: startParams_def)

lemma recording_apply:
  "recording f t ps (proc, calls) =
     (fst (f t ps proc), (snd (f t ps proc), calls @ [(t, ps, fst (f t ps proc))]))"
  by (simp add: recording_def case_prod_beta)

lemma startEach_recording:
  "fst (fst (startEach (recording f) st us ((proc, calls), out)))
     = fst (startEach f st us (proc, out)) \<and>
   snd (startEach (recording f) st us ((proc, calls), out))
     = snd (startEach f st us (proc, out)) \<and>
   (\<exists>new. snd (fst (startEach (recording f) st us ((proc, calls), out))) = calls @ new \<and>
      map (\<lambda>c. (fst c, fst (snd c))) new = map (\<lambda>u. (45, startParams st u)) us \<and>
      snd (startEach f st us (proc, out)) = out @ map lineOf new)"
proof (induction us arbitrary: "proc" calls out)
  case Nil
  then show ?case by simp
next
  case (Cons u us)
  obtain err proc' where step: "f 45 (startParams st u) proc = (err, proc')"
    by (cases "f 45 (startParams st u) proc")
  let ?line = "lineOf (45, startParams st u, err)"
  have rec: "startEach (recording f) st (u # us) ((proc, calls), out) =
      startEach (recording f) st us
        ((proc', calls @ [(45, startParams st u, err)]), out @ [?line])"
    by (cases err) (simp_all add: recording_apply step lineOf_def User_startParams)
  have plain: "startEach f st (u # us) (proc, out) =
      startEach f st us (proc', out @ [?line])"
    by (cases err) (simp_all add: step lineOf_def User_startParams)
  from Cons.IH [of proc' "calls @ [(45, startParams st u, err)]" "out @ [?line]"]
  obtain new where new:
    "fst (fst (startEach (recording f) st us
        ((proc', calls @ [(45, startParams st u, err)]), out @ [?line])))
       = fst (startEach f st us (proc', out @ [?line]))"
    "snd (startEach (recording f) st us
        ((proc', calls @ [(45, startParams st u, err)]), out @ [?line]))
       = snd (startEach f st us (proc', out @ [?line]))"
    "snd (fst (startEach (recording f) st us
        ((proc', calls @ [(45, startParams st u, err)]), out @ [?line])))
       = (calls @ [(45, startParams st u, err)]) @ new"
    "map (\<lambda>c. (fst c, fst (snd c))) new = map (\<lambda>u. (45, startParams st u)) us"
    "snd (startEach f st us (proc', out @ [?line])) = (out @ [?line]) @ map lineOf new"
    by blast
  show ?case
    unfolding rec plain
    using new by (intro conjI exI [of _ "(45, startParams st u, err) # new"]) simp_all
qed

lemma startEach_fold:
  "fst (startEach f st us (proc, out)) =
     fold (\<lambda>u p. snd (f 45 (startParams st u) p)) us proc"
proof (induction us arbitrary: "proc" out)
  case Nil
  then show ?case by simp
next
  case (Cons u us)
  then show ?case
    by (cases "f 45 (startParams st u) proc"; cases "fst (f 45 (startParams st u) proc)")
      simp_all
qed

text \<open>
  Claim C7. Whatever \<^verbatim>\<open>proc.StartUser\<close> does and returns, the calls it receives from
  \<open>autoStartUsers\<close> are, in this order, one call for each user of the list whose
  \<open>AutoStart\<close> flag is set, each with a context of 45 seconds and the parameters of
  that user; no other user is started, and an error returned for one user does not
  keep the later users from being started. The starts are made one after the other:
  each begins in the state of the process manager that the one before has left. After
  the line that tells the number of users found, one line is printed for each call, the
  failure with the user and the error, or the success.
\<close>

theorem auto_start_attempts_every_flagged_user:
  "map (\<lambda>c. (fst c, fst (snd c))) (snd (fst (autoStartUsers (recording f) st (proc, []))))
     = map (\<lambda>u. (45, startParams st u)) (filter AutoStart (ListUsers st)) \<and>
   snd (autoStartUsers f st proc) =
     (if filter AutoStart (ListUsers st) = [] then []
      else FoundUsers (length (filter AutoStart (ListUsers st))) #
           map lineOf (snd (fst (autoStartUsers (recording f) st (proc, []))))) \<and>
   fst (autoStartUsers f st proc) =
     fold (\<lambda>u p. snd (f 45 (startParams st u) p)) (filter AutoStart (ListUsers st)) proc"
proof (cases "filter AutoStart (ListUsers st) = []")
  case True
  then show ?thesis
    by (simp add: autoStartUsers_def)
next
  case False
  let ?us = "filter AutoStart (ListUsers st)"
  from startEach_recording [of f st ?us "proc" "[]" "[FoundUsers (length ?us)]"]
  obtain new where
    "snd (fst (startEach (recording f) st ?us ((proc, []), [FoundUsers (length ?us)]))) = new"
    "map (\<lambda>c. (fst c, fst (snd c))) new = map (\<lambda>u. (45, startParams st u)) ?us"
    "snd (startEach f st ?us (proc, [FoundUsers (length ?us)]))
       = [FoundUsers (length ?us)] @ map lineOf new"
    by auto
  with False show ?thesis
    by (simp add: autoStartUsers_def Let_def startEach_fold)
qed

theorem auto_start_attempts_every_flagged_user_witness:
  "filter AutoStart (ListUsers example_store) = [user1, user3] \<and>
   snd (fst (autoStartUsers (recording failing_u1) example_store (0, []))) =
     [(45, startParams example_store user1, Some ''port in use''),
      (45, startParams example_store user3, None)] \<and>
   snd (autoStartUsers failing_u1 example_store 0) =
     [FoundUsers 2, StartFailed ''u1'' ''port in use'', StartSucceeded ''u3''] \<and>
   fst (autoStartUsers failing_u1 example_store 0) = 2"
proof -
  have us: "filter AutoStart (ListUsers example_store) = [user1, user3]"
    by (simp add: example_store_def user1_def user2_def user3_def)
  have calls: "snd (fst (autoStartUsers (recording failing_u1) example_store (0, []))) =
     [(45, startParams example_store user1, Some ''port in use''),
      (45, startParams example_store user3, None)]"
    by (simp add: autoStartUsers_def us recording_apply failing_u1_def User_startParams
        user1_def user3_def)
  have lines:
    "lineOf (45, startParams example_store user1, Some ''port in use'')
       = StartFailed ''u1'' ''port in use''"
    "lineOf (45, startParams example_store user3, None) = StartSucceeded ''u3''"
    by (simp_all add: lineOf_def User_startParams user1_def user3_def)
  have count: "snd (failing_u1 45 (startParams example_store user3)
      (snd (failing_u1 45 (startParams example_store user1) 0))) = 2"
    by (simp add: failing_u1_def)
  show ?thesis
    using auto_start_attempts_every_flagged_user [of failing_u1 example_store 0]
    by (simp add: us calls lines count)
qed

subsection \<open>Clearing and downloading a log file\<close>

lemmas eval_space = TrimSpace_def spaceLen_def asciiSpace_def spaceRunes2_def spaceRunes3_def

lemma example_user1:
  "TrimSpace '' u1 '' = ''u1''" "TrimSpace ''u1'' = ''u1''"
  "GetUser example_store ''u1'' = Some user1"
  "ResolveDataDir example_store = ''data''"
  by (simp_all add: eval_space example_store_def)

lemma example_user3:
  "TrimSpace ''u3'' = ''u3''"
  "GetUser example_store ''u3'' = Some user3"
  by (simp_all add: eval_space example_store_def)

text \<open>
  Claim C5. For a request that names an existing user: when \<^verbatim>\<open>os.Stat\<close> reports that
  the log file does not exist, the answer is 200 with \<open>cleared\<close> true and the message
  that there is nothing to clear, and nothing changes. Otherwise \<^verbatim>\<open>os.Truncate\<close> to
  length 0 is tried first; when it succeeds the answer is 200 and the file is empty.
  When it fails, the file is opened with \<^verbatim>\<open>O_WRONLY|O_TRUNC\<close>; when that succeeds the
  answer is 200 and the file is empty. Only when both fail, the answer is 409 with the
  request to stop the process first if the worker is running, and 500 with the error of
  the truncation if it is not; the state is unchanged.
\<close>

theorem clear_log_outcomes:
  assumes "TrimSpace param_id = uid" and "uid \<noteq> []"
    and "GetUser (store a) uid = Some user"
    and "DerivePaths_LogFile a (ResolveDataDir (store a)) uid (Port user) = lf"
  shows
    "(Stat a lf = Some ErrNotExist \<longrightarrow>
        DeleteDebugLogs param_id a =
          (JSON 200 [(''cleared'', JBool True), (''log_file'', JPath lf),
                     (''message'', JMsg NothingToClear)], a)) \<and>
     (Stat a lf \<noteq> Some ErrNotExist \<longrightarrow>
        (\<forall>a'. Truncate a lf = Inr a' \<longrightarrow>
           DeleteDebugLogs param_id a =
             (JSON 200 [(''cleared'', JBool True), (''log_file'', JPath lf),
                        (''message'', JMsg LogCleared)], a') \<and>
           app_files a' lf = Some []) \<and>
        (\<forall>err a'. Truncate a lf = Inl err \<and> OpenFile_TRUNC a lf = Inr a' \<longrightarrow>
           DeleteDebugLogs param_id a =
             (JSON 200 [(''cleared'', JBool True), (''log_file'', JPath lf),
                        (''message'', JMsg LogCleared)], a') \<and>
           app_files a' lf = Some []) \<and>
        (\<forall>err openErr. Truncate a lf = Inl err \<and> OpenFile_TRUNC a lf = Inl openErr \<longrightarrow>
           DeleteDebugLogs param_id a =
             (if GetStatus_Running a uid
              then JSON 409 [(''error'', JMsg LogFileBusy), (''message'', JMsg StopProcessFirst)]
              else JSON 500 [(''error'', JMsg (ClearFailed err))], a)))"
proof -
  have emptied: "app_files a' lf = Some []" if "Truncate a lf = Inr a'" for a'
    using that by (auto simp: Truncate_def split: option.splits)
  have emptied': "app_files a' lf = Some []" if "OpenFile_TRUNC a lf = Inr a'" for a'
    using that by (auto simp: OpenFile_TRUNC_def split: option.splits)
  show ?thesis
    using assms emptied emptied' by (auto simp: DeleteDebugLogs_def Let_def)
qed

theorem clear_log_outcomes_witness:
  "DeleteDebugLogs ''u3'' app_busy =
     (JSON 200 [(''cleared'', JBool True), (''log_file'', JPath [''data'', ''u3'', ''server.log'']),
                (''message'', JMsg NothingToClear)], app_busy) \<and>
   fst (DeleteDebugLogs '' u1 '' app_free) =
     JSON 200 [(''cleared'', JBool True), (''log_file'', JPath [''data'', ''u1'', ''server.log'']),
               (''message'', JMsg LogCleared)] \<and>
   app_files (snd (DeleteDebugLogs '' u1 '' app_free)) [''data'', ''u1'', ''server.log''] = Some [] \<and>
   DeleteDebugLogs '' u1 '' app_busy =
     (JSON 409 [(''error'', JMsg LogFileBusy), (''message'', JMsg StopProcessFirst)], app_busy) \<and>
   DeleteDebugLogs '' u1 '' app_stopped =
     (JSON 500 [(''error'', JMsg (ClearFailed ''access is denied''))], app_stopped)"
proof -
  let ?log1 = "[''data'', ''u1'', ''server.log'']"
  let ?log3 = "[''data'', ''u3'', ''server.log'']"
  have st: "store app_busy = example_store" "store app_free = example_store"
    "store app_stopped = example_store"
    by (simp_all add: app_busy_def app_free_def app_stopped_def)
  have lf: "DerivePaths_LogFile app_busy ''data'' ''u1'' (Port user1) = ?log1"
    "DerivePaths_LogFile app_busy ''data'' ''u3'' (Port user3) = ?log3"
    "DerivePaths_LogFile app_free ''data'' ''u1'' (Port user1) = ?log1"
    "DerivePaths_LogFile app_stopped ''data'' ''u1'' (Port user1) = ?log1"
    by (simp_all add: app_busy_def app_free_def app_stopped_def)
  have absent: "Stat app_busy ?log3 = Some ErrNotExist"
    by (simp add: Stat_def app_busy_def)
  have present: "Stat app_busy ?log1 = None" "Stat app_free ?log1 = None"
    "Stat app_stopped ?log1 = None"
    by (simp_all add: Stat_def app_busy_def app_free_def app_stopped_def)
  have denied: "Truncate app_busy ?log1 = Inl ''access is denied''"
    "OpenFile_TRUNC app_busy ?log1 = Inl ''access is denied''"
    "Truncate app_stopped ?log1 = Inl ''access is denied''"
    "OpenFile_TRUNC app_stopped ?log1 = Inl ''access is denied''"
    by (simp_all add: Truncate_def OpenFile_TRUNC_def app_busy_def app_stopped_def)
  have free: "\<exists>a'. Truncate app_free ?log1 = Inr a'"
    by (simp add: Truncate_def app_free_def app_busy_def)
  have running: "GetStatus_Running app_busy ''u1''" "\<not> GetStatus_Running app_stopped ''u1''"
    by (simp_all add: app_busy_def app_stopped_def)
  have missing: "DeleteDebugLogs ''u3'' app_busy =
     (JSON 200 [(''cleared'', JBool True), (''log_file'', JPath ?log3),
                (''message'', JMsg NothingToClear)], app_busy)"
    using clear_log_outcomes [of "''u3''" "''u3''" app_busy user3 ?log3]
    by (simp add: example_user3 example_user1 st lf absent)
  have cleared: "fst (DeleteDebugLogs '' u1 '' app_free) =
     JSON 200 [(''cleared'', JBool True), (''log_file'', JPath ?log1),
               (''message'', JMsg LogCleared)] \<and>
     app_files (snd (DeleteDebugLogs '' u1 '' app_free)) ?log1 = Some []"
    using clear_log_outcomes [of "'' u1 ''" "''u1''" app_free user1 ?log1] free
    by (auto simp: example_user1 st lf present)
  have busy: "DeleteDebugLogs '' u1 '' app_busy =
     (JSON 409 [(''error'', JMsg LogFileBusy), (''message'', JMsg StopProcessFirst)], app_busy)"
    using clear_log_outcomes [of "'' u1 ''" "''u1''" app_busy user1 ?log1]
    by (simp add: example_user1 st lf present denied running)
  have stopped: "DeleteDebugLogs '' u1 '' app_stopped =
     (JSON 500 [(''error'', JMsg (ClearFailed ''access is denied''))], app_stopped)"
    using clear_log_outcomes [of "'' u1 ''" "''u1''" app_stopped user1 ?log1]
    by (simp add: example_user1 st lf present denied running)
  show ?thesis
    using missing cleared busy stopped by simp
qed

text \<open>
  Claim C6. For a request that names an existing user whose log file can be opened: the
  size is taken once, from \<^verbatim>\<open>f.Stat()\<close>, before any byte of the body is sent, and is
  declared as \<open>Content-Length\<close>. When the file only grows during the transfer
  (the reads of the copy find the content of that moment followed by whatever was
  appended) and the response writer does not fail, the body is exactly the content of
  that moment: as many bytes as declared, none of the appended ones.
\<close>

theorem download_sends_the_declared_length:
  assumes "TrimSpace param_id = uid" and "uid \<noteq> []"
    and "GetUser (store a) uid = Some user"
    and "DerivePaths_LogFile a (ResolveDataDir (store a)) uid (Port user) = lf"
    and "Open_err a lf = None" and "FileStat_err a lf = None"
    and "app_files a lf = Some content"
    and "copy_reads a lf = content @ grown"
    and "Copy_err a = None"
  shows "header ''Content-Length'' (DownloadDebugLogs param_id a)
           = Some (FormatInt (int (length content))) \<and>
         body (DownloadDebugLogs param_id a) = content \<and>
         (\<exists>s. DownloadDebugLogs param_id a = Streamed s \<and> Status s = 200 \<and> Flushed s \<and>
              Errors s = [])"
  using assms
  by (simp add: DownloadDebugLogs_def Let_def Open_def FileStat_def CopyN_def header_def body_def)

theorem download_sends_the_declared_length_witness:
  "app_files app_busy [''data'', ''u1'', ''server.log''] = Some ''started'' \<and>
   copy_reads app_busy [''data'', ''u1'', ''server.log''] = ''started'' @ ''and more'' \<and>
   header ''Content-Length'' (DownloadDebugLogs ''u1'' app_busy) = Some ''7'' \<and>
   body (DownloadDebugLogs ''u1'' app_busy) = ''started''"
proof -
  let ?log1 = "[''data'', ''u1'', ''server.log'']"
  have st: "store app_busy = example_store"
    by (simp add: app_busy_def)
  have lf: "DerivePaths_LogFile app_busy (ResolveDataDir (store app_busy)) ''u1'' (Port user1)
      = ?log1"
    by (simp add: app_busy_def example_store_def)
  have u: "GetUser (store app_busy) ''u1'' = Some user1"
    by (simp add: st example_user1)
  have ok: "Open_err app_busy ?log1 = None" "FileStat_err app_busy ?log1 = None"
    "Copy_err app_busy = None"
    by (simp_all add: app_busy_def)
  have f: "app_files app_busy ?log1 = Some ''started''"
    by (simp add: app_busy_def)
  have g: "copy_reads app_busy ?log1 = ''started'' @ ''and more''"
    by (simp add: app_busy_def)
  have n: "FormatInt (int (length ''started'')) = ''7''"
    by (simp add: FormatInt_def natDigits.simps)
  have ne: "''u1'' \<noteq> []"
    by simp
  from download_sends_the_declared_length [OF example_user1(2) ne u lf ok(1,2) f g ok(3)]
  show ?thesis
    using f g n by simp
qed

end
